theory Spec2Isabelle
  imports Main "HOL-Library.Word"
begin

unbundle bit_operations_syntax

section \<open>The STARCOS SPK 2.3 driver (card-starcos.c): data model\<close>

text \<open>
  The driver is embedded function by function. Bytes are \<open>8 word\<close>, the C type
  \<open>unsigned int\<close> is \<open>32 word\<close>, \<open>size_t\<close> quantities that only count are \<open>nat\<close>.
  A buffer with a separate length field (\<open>sc_path_t\<close>, \<open>key_ref\<close>, \<open>name\<close>, an APDU
  body) is the list of its first \<open>len\<close> bytes. Every function that talks to the card
  takes the card handle and returns the updated one.
\<close>

type_synonym u8 = "8 word"
type_synonym uint = "32 word"

text \<open>
  The error kinds the driver names. In C they are negative \<open>int\<close> constants of
  errors.h; \<open>SC_ERROR_OTHER n\<close> stands for any other code (a transport error, an
  ISO 7816 error of the parent driver that this driver never names).
\<close>

datatype sc_error =
    SC_ERROR_OUT_OF_MEMORY
  | SC_ERROR_INVALID_ARGUMENTS
  | SC_ERROR_INVALID_DATA
  | SC_ERROR_INTERNAL
  | SC_ERROR_NOT_SUPPORTED
  | SC_ERROR_NOT_ALLOWED
  | SC_ERROR_INCORRECT_PARAMETERS
  | SC_ERROR_FILE_ALREADY_EXISTS
  | SC_ERROR_FILE_NOT_FOUND
  | SC_ERROR_PIN_CODE_INCORRECT
  | SC_ERROR_CARD_CMD_FAILED
  | SC_ERROR_OTHER int

datatype apdu_case =
    SC_APDU_CASE_1
  | SC_APDU_CASE_2_SHORT
  | SC_APDU_CASE_3_SHORT
  | SC_APDU_CASE_4_SHORT

text \<open>\<open>sc_apdu_t\<close>: \<open>lc\<close> and \<open>datalen\<close> are always set to the same number, the length
  of \<open>data\<close>; \<open>resplen\<close> is the size of the response buffer the caller offers.\<close>

record sc_apdu =
  cse :: apdu_case
  cla :: u8
  ins :: u8
  p1 :: u8
  p2 :: u8
  data :: "u8 list"
  le :: nat
  resplen :: nat
  sensitive :: bool

datatype path_type =
    SC_PATH_TYPE_FILE_ID
  | SC_PATH_TYPE_DF_NAME
  | SC_PATH_TYPE_PATH
  | SC_PATH_TYPE_OTHER nat

text \<open>\<open>sc_path_t\<close>: \<open>pvalue\<close> holds the first \<open>len\<close> bytes of \<open>value[]\<close>.\<close>

record sc_path =
  pvalue :: "u8 list"
  ptype :: path_type

text \<open>\<open>starcos_ex_data\<close>, the driver's private state behind \<open>card->drv_data\<close>.\<close>

record starcos_ex_data =
  sec_ops :: int
  fix_digestInfo :: uint

text \<open>
  The part of \<open>sc_card_t\<close> the driver reads and writes. \<open>apdu_log\<close> is the sequence
  of APDUs handed to \<open>sc_transmit_apdu\<close> so far, oldest first: it is what the card has
  seen, and what the transport's answer may depend on.
\<close>

record sc_card =
  card_cla :: u8
  cache_valid :: bool
  cache_current_path :: sc_path
  serialnr :: "u8 list"
  drv_data :: starcos_ex_data
  apdu_log :: "sc_apdu list"

record sc_acl_entry =
  acl_method :: uint
  acl_key_ref :: uint

text \<open>\<open>sc_file_t\<close>. \<open>acl r\<close> is \<open>None\<close> when \<open>file->acl[r]\<close> is \<open>NULL\<close>.\<close>

record sc_file =
  fpath :: sc_path
  fname :: "u8 list"
  ftype :: int
  ef_structure :: int
  shareable :: int
  fsize :: nat
  fid :: uint
  record_length :: nat
  record_count :: nat
  acl :: "nat \<Rightarrow> sc_acl_entry option"
  magic :: nat

text \<open>
  The driver's collaborators, which are not part of card-starcos.c:
  \<^item> \<open>transmit\<close>: the card behind the transport. Given the APDUs it has already seen
    and the next one, it fails (\<open>r < 0\<close>) or answers \<open>(sw1, sw2, response)\<close>;
  \<^item> \<open>iso_check_sw\<close>: the parent ISO 7816 driver's \<open>check_sw\<close>;
  \<^item> \<open>malloc_ok\<close>: whether \<open>malloc\<close> and \<open>sc_file_new\<close> return memory;
  \<^item> \<open>asn1_find_tag\<close>: \<open>sc_asn1_find_tag\<close>, the value of a tag inside a BER buffer;
  \<^item> \<open>pkcs1_encode\<close>: \<open>sc_pkcs1_encode\<close> (hash flags, input, size of the output
    buffer);
  \<^item> \<open>uninit\<close>: the indeterminate content of a local receive buffer (and of the memory
    behind it) before a response is stored in it.
\<close>

record env =
  transmit :: "sc_apdu list \<Rightarrow> sc_apdu \<Rightarrow> sc_error + (u8 \<times> u8 \<times> u8 list)"
  iso_check_sw :: "uint \<Rightarrow> uint \<Rightarrow> sc_error + unit"
  malloc_ok :: bool
  asn1_find_tag :: "u8 list \<Rightarrow> u8 \<Rightarrow> u8 list option"
  pkcs1_encode :: "uint \<Rightarrow> u8 list \<Rightarrow> nat \<Rightarrow> sc_error + u8 list"
  uninit :: "nat \<Rightarrow> u8"

subsection \<open>Constants of opensc.h\<close>

text \<open>
  Modelled from the spec: the macros below are declared in opensc.h and cardctl.h, which
  are not among the sources; the spec names them and the values are those of the OpenSC
  headers of the driver's time.
\<close>

definition SC_MAX_APDU_BUFFER_SIZE :: nat where
  "SC_MAX_APDU_BUFFER_SIZE = 258"

definition SC_SEC_OPERATION_DECIPHER :: int where
  "SC_SEC_OPERATION_DECIPHER = 1"

definition SC_SEC_OPERATION_SIGN :: int where
  "SC_SEC_OPERATION_SIGN = 2"

definition SC_SEC_OPERATION_AUTHENTICATE :: int where
  "SC_SEC_OPERATION_AUTHENTICATE = 3"

definition SC_SEC_ENV_ALG_REF_PRESENT :: uint where
  "SC_SEC_ENV_ALG_REF_PRESENT = 0x0001"

definition SC_SEC_ENV_KEY_REF_PRESENT :: uint where
  "SC_SEC_ENV_KEY_REF_PRESENT = 0x0004"

definition SC_SEC_ENV_KEY_REF_ASYMMETRIC :: uint where
  "SC_SEC_ENV_KEY_REF_ASYMMETRIC = 0x0008"

definition SC_SEC_ENV_ALG_PRESENT :: uint where
  "SC_SEC_ENV_ALG_PRESENT = 0x0010"

definition SC_ALGORITHM_RSA :: uint where
  "SC_ALGORITHM_RSA = 0"

definition SC_ALGORITHM_RSA_PAD_PKCS1 :: uint where
  "SC_ALGORITHM_RSA_PAD_PKCS1 = 0x00000002"

definition SC_ALGORITHM_RSA_PAD_ISO9796 :: uint where
  "SC_ALGORITHM_RSA_PAD_ISO9796 = 0x00000008"

definition SC_ALGORITHM_RSA_HASH_NONE :: uint where
  "SC_ALGORITHM_RSA_HASH_NONE = 0x00000010"

definition SC_ALGORITHM_RSA_HASH_SHA1 :: uint where
  "SC_ALGORITHM_RSA_HASH_SHA1 = 0x00000020"

definition SC_ALGORITHM_RSA_HASH_MD5 :: uint where
  "SC_ALGORITHM_RSA_HASH_MD5 = 0x00000040"

definition SC_ALGORITHM_RSA_HASH_MD5_SHA1 :: uint where
  "SC_ALGORITHM_RSA_HASH_MD5_SHA1 = 0x00000080"

definition SC_ALGORITHM_RSA_HASH_RIPEMD160 :: uint where
  "SC_ALGORITHM_RSA_HASH_RIPEMD160 = 0x00000100"

definition SC_ALGORITHM_RSA_HASHES :: uint where
  "SC_ALGORITHM_RSA_HASHES = 0x000001E0"

definition SC_FILE_TYPE_WORKING_EF :: int where
  "SC_FILE_TYPE_WORKING_EF = 0x01"

definition SC_FILE_TYPE_DF :: int where
  "SC_FILE_TYPE_DF = 0x04"

definition SC_FILE_EF_UNKNOWN :: int where
  "SC_FILE_EF_UNKNOWN = 0x00"

definition SC_FILE_EF_TRANSPARENT :: int where
  "SC_FILE_EF_TRANSPARENT = 0x01"

definition SC_FILE_EF_LINEAR_FIXED :: int where
  "SC_FILE_EF_LINEAR_FIXED = 0x02"

definition SC_FILE_EF_CYCLIC :: int where
  "SC_FILE_EF_CYCLIC = 0x06"

definition SC_FILE_MAGIC :: nat where
  "SC_FILE_MAGIC = 0x14426950"

definition SC_AC_CHV :: uint where
  "SC_AC_CHV = 0x00000001"

definition SC_AC_PRO :: uint where
  "SC_AC_PRO = 0x00000004"

definition SC_AC_NEVER :: uint where
  "SC_AC_NEVER = 0xFFFFFFFF"

definition SC_AC_KEY_REF_NONE :: uint where
  "SC_AC_KEY_REF_NONE = 0xFFFFFFFF"

definition SC_AC_OP_READ :: nat where
  "SC_AC_OP_READ = 0"

definition SC_AC_OP_WRITE :: nat where
  "SC_AC_OP_WRITE = 1"

definition SC_AC_OP_ERASE :: nat where
  "SC_AC_OP_ERASE = 2"

definition SC_AC_OP_CREATE :: nat where
  "SC_AC_OP_CREATE = 3"

subsection \<open>The framework calls the driver makes\<close>

text \<open>\<open>sc_format_apdu\<close>: a zeroed APDU with the card's class byte and the given
  case, instruction and parameters.\<close>

definition sc_format_apdu :: "sc_card \<Rightarrow> apdu_case \<Rightarrow> u8 \<Rightarrow> u8 \<Rightarrow> u8 \<Rightarrow> sc_apdu" where
  "sc_format_apdu crd c i a b =
     \<lparr>cse = c, cla = card_cla crd, ins = i, p1 = a, p2 = b, data = [], le = 0,
      resplen = 0, sensitive = False\<rparr>"

text \<open>
  Modelled from the spec: \<open>sc_transmit_apdu\<close> (the transport, \<open>transmit(apdu) ->
  (sw1, sw2, resp)\<close>) is not among the sources. The APDU is recorded in the card's log;
  the answer is the collaborator's, with the response cut to the buffer the APDU offers.
\<close>

definition sc_transmit_apdu ::
  "env \<Rightarrow> sc_card \<Rightarrow> sc_apdu \<Rightarrow> sc_card \<times> (sc_error + (u8 \<times> u8 \<times> u8 list))" where
  "sc_transmit_apdu e crd apdu =
     (crd\<lparr>apdu_log := apdu_log crd @ [apdu]\<rparr>,
      case transmit e (apdu_log crd) apdu of
        Inl err \<Rightarrow> Inl err
      | Inr (sw1, sw2, resp) \<Rightarrow> Inr (sw1, sw2, take (resplen apdu) resp))"

subsection \<open>Status-word translation\<close>

text \<open>The table \<open>starcos_errors[]\<close>: status word, error, message.\<close>

definition starcos_errors :: "(uint \<times> sc_error \<times> string) list" where
  "starcos_errors =
    [(0x6600, SC_ERROR_INCORRECT_PARAMETERS, ''Error setting the security env''),
     (0x66F0, SC_ERROR_INCORRECT_PARAMETERS, ''No space left for padding''),
     (0x69F0, SC_ERROR_NOT_ALLOWED, ''Command not allowed''),
     (0x6A89, SC_ERROR_FILE_ALREADY_EXISTS, ''Files exists''),
     (0x6A8A, SC_ERROR_FILE_ALREADY_EXISTS, ''Application exists''),
     (0x6F01, SC_ERROR_CARD_CMD_FAILED, ''public key not complete''),
     (0x6F02, SC_ERROR_CARD_CMD_FAILED, ''data overflow''),
     (0x6F03, SC_ERROR_CARD_CMD_FAILED, ''invalid command sequence''),
     (0x6F05, SC_ERROR_CARD_CMD_FAILED, ''security enviroment invalid''),
     (0x6F07, SC_ERROR_FILE_NOT_FOUND, ''key part not found''),
     (0x6F08, SC_ERROR_CARD_CMD_FAILED, ''signature failed''),
     (0x6F0A, SC_ERROR_INCORRECT_PARAMETERS, ''key format does not match key length''),
     (0x6F0B, SC_ERROR_INCORRECT_PARAMETERS,
        ''length of key component inconsistent with algorithm''),
     (0x6F81, SC_ERROR_CARD_CMD_FAILED, ''system error'')]"

text \<open>The loop over the table: the first entry whose \<open>SWs\<close> equals the word.\<close>

fun find_error :: "(uint \<times> sc_error \<times> string) list \<Rightarrow> uint \<Rightarrow> sc_error option" where
  "find_error [] sw = None"
| "find_error ((sws, errorno, errorstr) # rest) sw =
     (if sws = sw then Some errorno else find_error rest sw)"

definition starcos_check_sw :: "env \<Rightarrow> uint \<Rightarrow> uint \<Rightarrow> sc_error + unit" where
  "starcos_check_sw e sw1 sw2 =
     (if sw1 = 0x90 then Inr ()
      else if sw1 = 0x63 \<and> (sw2 AND NOT 0x0f) = 0xc0 then Inl SC_ERROR_PIN_CODE_INCORRECT
      else case find_error starcos_errors (push_bit 8 sw1 OR sw2) of
             Some errorno \<Rightarrow> Inl errorno
           | None \<Rightarrow> iso_check_sw e sw1 sw2)"

text \<open>\<open>sc_check_sw\<close> of the framework dispatches to the driver's \<open>check_sw\<close>; the
  status bytes of an answer are widened to \<open>unsigned int\<close>.\<close>

definition sc_check_sw :: "env \<Rightarrow> u8 \<Rightarrow> u8 \<Rightarrow> sc_error + unit" where
  "sc_check_sw e sw1 sw2 = starcos_check_sw e (ucast sw1) (ucast sw2)"

subsection \<open>Erase and logout\<close>

definition starcos_erase_card :: "env \<Rightarrow> sc_card \<Rightarrow> sc_card \<times> (sc_error + unit)" where
  "starcos_erase_card e crd =
     (let sbuf = [0x3f, 0x00];
          apdu = (sc_format_apdu crd SC_APDU_CASE_3_SHORT 0xE4 0x00 0x00)
                   \<lparr>cla := card_cla crd OR 0x80, data := sbuf\<rparr>
      in case sc_transmit_apdu e crd apdu of
           (crd1, Inl r) \<Rightarrow> (crd1, Inl r)
         | (crd1, Inr (sw1, sw2, resp)) \<Rightarrow>
             (let crd2 = crd1\<lparr>cache_valid := False\<rparr>
              in if sw1 = 0x69 \<and> sw2 = 0x85 then (crd2, Inr ())
                 else (crd2, sc_check_sw e sw1 sw2)))"


subsection \<open>The FCI decoder\<close>

text \<open>
  Modelled from the spec: \<open>sc_file_new\<close> (sc.c) is not among the sources; it returns
  a zeroed descriptor whose ACL slots are \<open>NULL\<close> and whose \<open>magic\<close> is set.
\<close>

definition sc_file_new :: sc_file where
  "sc_file_new =
     \<lparr>fpath = \<lparr>pvalue = [], ptype = SC_PATH_TYPE_FILE_ID\<rparr>, fname = [], ftype = 0,
      ef_structure = 0, shareable = 0, fsize = 0, fid = 0, record_length = 0,
      record_count = 0, acl = (\<lambda>r. None), magic = SC_FILE_MAGIC\<rparr>"

definition process_fci :: "env \<Rightarrow> sc_file \<Rightarrow> u8 list \<Rightarrow> sc_error + sc_file" where
  "process_fci e file buf =
     (if length buf < 2 then Inl SC_ERROR_INTERNAL
      else if buf ! 0 \<noteq> 0x6f then Inl SC_ERROR_INVALID_DATA
      else
        (let len = unat (buf ! 1) in
         if length buf - 2 < len then Inl SC_ERROR_INVALID_DATA
         else
           (let p = take len (drop 2 buf);
                file1 = file\<lparr>ftype := SC_FILE_TYPE_WORKING_EF,
                             ef_structure := SC_FILE_EF_UNKNOWN, shareable := 0,
                             record_length := 0, fsize := 0\<rparr>;
                file2 = (case asn1_find_tag e p 0x80 of
                           None \<Rightarrow> file1
                         | Some tag \<Rightarrow>
                             if length tag \<ge> 2
                             then file1\<lparr>fsize := unat (tag ! 0) * 256 + unat (tag ! 1)\<rparr>
                             else file1);
                file3 = (case asn1_find_tag e p 0x82 of
                           None \<Rightarrow> file2
                         | Some tag \<Rightarrow>
                             if length tag = 1 \<and> tag ! 0 = 0x01
                             then file2\<lparr>ftype := SC_FILE_TYPE_WORKING_EF,
                                        ef_structure := SC_FILE_EF_TRANSPARENT\<rparr>
                             else if length tag = 1 \<and> tag ! 0 = 0x11
                             then file2\<lparr>ftype := SC_FILE_TYPE_WORKING_EF,
                                        ef_structure := SC_FILE_EF_TRANSPARENT\<rparr>
                             else if length tag = 3 \<and> tag ! 1 = 0x21
                             then
                               (let f = file2\<lparr>record_length := unat (tag ! 2),
                                              ftype := SC_FILE_TYPE_WORKING_EF\<rparr>
                                in if tag ! 0 = 0x02
                                   then f\<lparr>ef_structure := SC_FILE_EF_LINEAR_FIXED\<rparr>
                                   else if tag ! 0 = 0x07
                                   then f\<lparr>ef_structure := SC_FILE_EF_CYCLIC\<rparr>
                                   else if tag ! 0 = 0x17
                                   then f\<lparr>ef_structure := SC_FILE_EF_UNKNOWN\<rparr>
                                   else f\<lparr>ef_structure := SC_FILE_EF_UNKNOWN,
                                          record_length := 0\<rparr>)
                             else file2)
            in Inr (file3\<lparr>magic := SC_FILE_MAGIC\<rparr>))))"

subsection \<open>SELECT FILE\<close>

text \<open>
  The selectors return the updated card, the status, and what they stored in
  \<open>*file_out\<close> (\<open>None\<close> when nothing was stored). The flag \<open>file_out\<close> says whether the
  caller's pointer is non-\<open>NULL\<close>.
\<close>

definition starcos_select_aid ::
  "env \<Rightarrow> sc_card \<Rightarrow> u8 list \<Rightarrow> bool \<Rightarrow> sc_card \<times> (sc_error + unit) \<times> sc_file option" where
  "starcos_select_aid e crd aid file_out =
     (let apdu = (sc_format_apdu crd SC_APDU_CASE_3_SHORT 0xA4 0x04 0x0C)
                   \<lparr>data := aid, resplen := 0, le := 0\<rparr>
      in case sc_transmit_apdu e crd apdu of
           (crd1, Inl r) \<Rightarrow> (crd1, Inl r, None)
         | (crd1, Inr (sw1, sw2, resp)) \<Rightarrow>
             if \<not> (sw1 = 0x90 \<and> sw2 = 0x00) \<and> sw1 \<noteq> 0x61
             then (crd1, sc_check_sw e sw1 sw2, None)
             else
               (let crd2 = crd1\<lparr>cache_current_path :=
                                  \<lparr>pvalue = aid, ptype = SC_PATH_TYPE_DF_NAME\<rparr>\<rparr>
                in if file_out
                   then
                     (if \<not> malloc_ok e then (crd2, Inl SC_ERROR_OUT_OF_MEMORY, None)
                      else (crd2, Inr (),
                            Some (sc_file_new\<lparr>ftype := SC_FILE_TYPE_DF,
                                    ef_structure := SC_FILE_EF_UNKNOWN,
                                    fpath := (fpath sc_file_new)\<lparr>pvalue := []\<rparr>,
                                    fsize := 0, fname := aid, fid := 0x0000,
                                    magic := SC_FILE_MAGIC\<rparr>)))
                   else (crd2, Inr (), None)))"

text \<open>The end of \<open>starcos_select_fid\<close>, from the test of the SELECT's status word on:
  \<open>bIsDF\<close>, the status word and the response are those the first part left.\<close>

definition select_fid_finish ::
  "env \<Rightarrow> sc_card \<Rightarrow> uint \<Rightarrow> uint \<Rightarrow> bool \<Rightarrow> bool \<Rightarrow> u8 \<Rightarrow> u8 \<Rightarrow> u8 list
     \<Rightarrow> sc_card \<times> (sc_error + unit) \<times> sc_file option" where
  "select_fid_finish e crd id_hi id_lo file_out bIsDF sw1 sw2 resp =
     (if sw1 \<noteq> 0x61 \<and> (sw1 \<noteq> 0x90 \<or> sw2 \<noteq> 0x00)
      then (crd, sc_check_sw e sw1 sw2, None)
      else
        (let crd1 =
               (if bIsDF
                then crd\<lparr>cache_current_path :=
                           \<lparr>pvalue = (if id_hi = 0x3f \<and> id_lo = 0x00 then [0x3f, 0x00]
                                      else [0x3f, 0x00, ucast id_hi, ucast id_lo]),
                            ptype = SC_PATH_TYPE_PATH\<rparr>\<rparr>
                else crd)
         in if file_out
            then
              (if \<not> malloc_ok e then (crd1, Inl SC_ERROR_OUT_OF_MEMORY, None)
               else
                 (let file = sc_file_new\<lparr>fid := push_bit 8 id_hi + id_lo,
                                         fpath := cache_current_path crd1\<rparr>
                  in if bIsDF
                     then (crd1, Inr (),
                           Some (file\<lparr>ftype := SC_FILE_TYPE_DF,
                                   ef_structure := SC_FILE_EF_UNKNOWN, fsize := 0,
                                   fname := [], magic := SC_FILE_MAGIC\<rparr>))
                     else (case process_fci e file resp of
                             Inl r \<Rightarrow> (crd1, Inl r, None)
                           | Inr f \<Rightarrow> (crd1, Inr (), Some f))))
            else (crd1, Inr (), None)))"

definition starcos_select_fid ::
  "env \<Rightarrow> sc_card \<Rightarrow> uint \<Rightarrow> uint \<Rightarrow> bool \<Rightarrow> sc_card \<times> (sc_error + unit) \<times> sc_file option" where
  "starcos_select_fid e crd id_hi id_lo file_out =
     (let fid_data = [ucast (id_hi AND 0xff), ucast (id_lo AND 0xff)];
          apdu = (sc_format_apdu crd SC_APDU_CASE_4_SHORT 0xA4 0x00 0x00)
                   \<lparr>p2 := (if file_out then 0x00 else 0x0C),
                    resplen := SC_MAX_APDU_BUFFER_SIZE, le := 256, data := fid_data\<rparr>
      in case sc_transmit_apdu e crd apdu of
           (crd1, Inl r) \<Rightarrow> (crd1, Inl r, None)
         | (crd1, Inr (sw1, sw2, resp)) \<Rightarrow>
             if p2 apdu = 0x00 \<and> sw1 = 0x62 \<and> sw2 = 0x84
             then
               (let apdu1 = apdu\<lparr>p2 := 0x0C, cse := SC_APDU_CASE_3_SHORT,
                                 resplen := 0, le := 0\<rparr>
                in case sc_transmit_apdu e crd1 apdu1 of
                     (crd2, Inl r) \<Rightarrow> (crd2, Inl r, None)
                   | (crd2, Inr (sw1a, sw2a, respa)) \<Rightarrow>
                       select_fid_finish e crd2 id_hi id_lo file_out True sw1a sw2a respa)
             else if sw1 = 0x61 \<or> (sw1 = 0x90 \<and> sw2 = 0x00)
             then
               (let apdu2 = (sc_format_apdu crd1 SC_APDU_CASE_2_SHORT 0xB0 0 0)
                              \<lparr>resplen := 2, le := 1\<rparr>
                in case sc_transmit_apdu e crd1 apdu2 of
                     (crd2, Inl r) \<Rightarrow> (crd2, Inl r, None)
                   | (crd2, Inr (sw1b, sw2b, respb)) \<Rightarrow>
                       select_fid_finish e crd2 id_hi id_lo file_out
                         (sw1b = 0x69 \<and> sw2b = 0x86) sw1 sw2 resp)
             else select_fid_finish e crd1 id_hi id_lo file_out False sw1 sw2 resp)"

text \<open>The loop that counts \<open>bMatch\<close>: for \<open>i = 0, 2, ...\<close> below the cache's length,
  two more when the cache and the path agree on the bytes \<open>i\<close> and \<open>i + 1\<close>.\<close>

function bMatch_loop :: "u8 list \<Rightarrow> u8 list \<Rightarrow> nat \<Rightarrow> int \<Rightarrow> int" where
  "bMatch_loop cache path i bMatch =
     (if i < length cache
      then bMatch_loop cache path (i + 2)
             (if cache ! i = path ! i \<and> cache ! (i + 1) = path ! (i + 1)
              then bMatch + 2 else bMatch)
      else bMatch)"
  by pat_completeness auto
termination
  by (relation "measure (\<lambda>(cache, path, i, bMatch). length cache - i)") auto

declare bMatch_loop.simps [simp del]

text \<open>The loop of the branch without a usable cache: every FID but the last is
  selected without a descriptor; the first failure is returned.\<close>

function select_path_loop ::
  "env \<Rightarrow> sc_card \<Rightarrow> u8 list \<Rightarrow> nat \<Rightarrow> sc_card \<times> (sc_error + unit)" where
  "select_path_loop e crd path i =
     (if i < length path - 2
      then (case starcos_select_fid e crd (ucast (path ! i)) (ucast (path ! (i + 1))) False of
              (crd1, Inl r, f) \<Rightarrow> (crd1, Inl r)
            | (crd1, Inr u, f) \<Rightarrow> select_path_loop e crd1 path (i + 2))
      else (crd, Inr ()))"
  by pat_completeness auto
termination
  by (relation "measure (\<lambda>(e, crd, path, i). length path - 2 - i)") auto

declare select_path_loop.simps [simp del]

text \<open>"unify path (the first FID should be MF)": a path that does not start with
  \<open>3F 00\<close> gets it in front.\<close>

definition unify_path :: "u8 list \<Rightarrow> u8 list" where
  "unify_path pathbuf =
     (if pathbuf ! 0 \<noteq> 0x3f \<or> pathbuf ! 1 \<noteq> 0x00 then [0x3f, 0x00] @ pathbuf
      else pathbuf)"

text \<open>"check current working directory": \<open>bMatch\<close> starts as \<open>-1\<close> and is counted only
  when the cache is valid, holds a path and is no longer than the unified path.\<close>

definition check_cwd :: "sc_card \<Rightarrow> u8 list \<Rightarrow> int" where
  "check_cwd crd path =
     (let cache = pvalue (cache_current_path crd)
      in if cache_valid crd
            \<and> ptype (cache_current_path crd) = SC_PATH_TYPE_PATH
            \<and> length cache \<ge> 2 \<and> length cache \<le> length path
         then bMatch_loop cache path 0 0 else - 1)"

text \<open>
  \<open>starcos_select_file\<close> calls itself on the rest of the path after one step into a
  directory. Nothing in the code bounds that recursion for every cache content, so the
  function is partial: \<open>None\<close> is a call that does not return. Inside the branch that
  uses \<open>bMatch\<close> it is between 0 and \<open>pathlen\<close>, so the unsigned differences of the C
  code are the integer ones.
\<close>

partial_function (option) starcos_select_file ::
  "env \<Rightarrow> sc_card \<Rightarrow> sc_path \<Rightarrow> bool
     \<Rightarrow> (sc_card \<times> (sc_error + unit) \<times> sc_file option) option" where
  "starcos_select_file e crd in_path file_out =
     (let pathbuf = pvalue in_path; pathlen = length pathbuf in
      if ptype in_path = SC_PATH_TYPE_FILE_ID
      then
        (if pathlen \<noteq> 2 then Some (crd, Inl SC_ERROR_INVALID_ARGUMENTS, None)
         else Some (starcos_select_fid e crd (ucast (pathbuf ! 0)) (ucast (pathbuf ! 1))
                      file_out))
      else if ptype in_path = SC_PATH_TYPE_DF_NAME
      then
        (if cache_valid crd
            \<and> ptype (cache_current_path crd) = SC_PATH_TYPE_DF_NAME
            \<and> length (pvalue (cache_current_path crd)) = pathlen
            \<and> pvalue (cache_current_path crd) = pathbuf
         then Some (crd, Inr (), None)
         else Some (starcos_select_aid e crd pathbuf file_out))
      else if ptype in_path = SC_PATH_TYPE_PATH
      then
        (if pathlen mod 2 \<noteq> 0 \<or> pathlen > 6 \<or> pathlen \<le> 0
         then Some (crd, Inl SC_ERROR_INVALID_ARGUMENTS, None)
         else if pathlen = 6 \<and> (pathbuf ! 0 \<noteq> 0x3f \<or> pathbuf ! 1 \<noteq> 0x00)
         then Some (crd, Inl SC_ERROR_INVALID_ARGUMENTS, None)
         else
           (let path = unify_path pathbuf;
                pathlen = length path;
                bMatch = check_cwd crd path
            in if cache_valid crd \<and> bMatch \<ge> 0
               then
                 (if int pathlen - bMatch = 2
                  then Some (starcos_select_fid e crd (ucast (path ! nat bMatch))
                               (ucast (path ! (nat bMatch + 1))) file_out)
                  else if int pathlen - bMatch > 2
                  then
                    (case starcos_select_fid e crd (ucast (path ! nat bMatch))
                            (ucast (path ! (nat bMatch + 1))) False of
                       (crd1, Inl r, f) \<Rightarrow> Some (crd1, Inl r, None)
                     | (crd1, Inr u, f) \<Rightarrow>
                         starcos_select_file e crd1
                           \<lparr>pvalue = take (pathlen - nat bMatch - 2)
                                       (drop (nat bMatch + 2) path),
                            ptype = SC_PATH_TYPE_PATH\<rparr>
                           file_out)
                  else
                    (if file_out
                     then
                       (if \<not> malloc_ok e then Some (crd, Inl SC_ERROR_OUT_OF_MEMORY, None)
                        else Some (crd, Inr (),
                               Some (sc_file_new
                                 \<lparr>fid := push_bit 8 (ucast (path ! (pathlen - 2)))
                                           + ucast (path ! (pathlen - 1)),
                                  fpath := cache_current_path crd,
                                  ftype := SC_FILE_TYPE_DF,
                                  ef_structure := SC_FILE_EF_UNKNOWN, fsize := 0,
                                  fname := [], magic := SC_FILE_MAGIC\<rparr>)))
                     else Some (crd, Inr (), None)))
               else
                 (case select_path_loop e crd path 0 of
                    (crd1, Inl r) \<Rightarrow> Some (crd1, Inl r, None)
                  | (crd1, Inr u) \<Rightarrow>
                      Some (starcos_select_fid e crd1 (ucast (path ! (pathlen - 2)))
                              (ucast (path ! (pathlen - 1))) file_out))))
      else Some (crd, Inl SC_ERROR_INVALID_ARGUMENTS, None))"

subsection \<open>The ACL translator\<close>

definition STARCOS_AC_ALWAYS :: uint where
  "STARCOS_AC_ALWAYS = 0x9f"

definition STARCOS_AC_NEVER :: u8 where
  "STARCOS_AC_NEVER = 0x5f"

definition STARCOS_PINID2STATE :: "uint \<Rightarrow> uint" where
  "STARCOS_PINID2STATE a =
     (if a AND 0x0f = 0x01 then a AND 0x0f else 0x0f - drop_bit 1 (0x0f AND a))"

text \<open>
  Modelled from the spec: \<open>sc_file_get_acl_entry\<close> (sc.c) is not among the sources. It
  returns the entry of the operation's ACL slot; the slot's reserved pointer values stand
  for constant entries, which are entries like any other here.
\<close>

definition sc_file_get_acl_entry :: "sc_file \<Rightarrow> nat \<Rightarrow> sc_acl_entry option" where
  "sc_file_get_acl_entry file op = acl file op"

definition process_acl_entry :: "sc_file \<Rightarrow> nat \<Rightarrow> uint \<Rightarrow> u8" where
  "process_acl_entry file op in_def =
     (let def = (ucast in_def :: u8)
      in case sc_file_get_acl_entry file op of
           None \<Rightarrow> def
         | Some entry \<Rightarrow>
             if acl_method entry AND SC_AC_CHV \<noteq> 0
             then
               (let kr = acl_key_ref entry
                in if kr = SC_AC_KEY_REF_NONE then def
                   else if kr AND 0x0f = 1
                   then ucast ((if kr AND 0x80 \<noteq> 0 then 0x10 else 0x00) OR (0x01 :: uint))
                   else ucast ((if kr AND 0x80 \<noteq> 0 then 0x10 else 0x00)
                               OR STARCOS_PINID2STATE kr))
             else if acl_method entry AND SC_AC_NEVER \<noteq> 0 then STARCOS_AC_NEVER
             else def)"

text \<open>The test \<open>file->acl[r] && (sc_file_get_acl_entry(file, r))->method & SC_AC_PRO\<close>.\<close>

definition acl_wants_pro :: "sc_file \<Rightarrow> nat \<Rightarrow> bool" where
  "acl_wants_pro file r =
     (acl file r \<noteq> None
      \<and> (case sc_file_get_acl_entry file r of
            None \<Rightarrow> False
          | Some entry \<Rightarrow> acl_method entry AND SC_AC_PRO \<noteq> 0))"

text \<open>The loop \<open>for (tmp = 0, r = 0; tmp != 0 && r < 4; r++)\<close> of the EF branch, from a
  given \<open>tmp\<close> and \<open>r\<close> on.\<close>

function ef_sm_loop :: "sc_file \<Rightarrow> u8 \<Rightarrow> nat \<Rightarrow> u8" where
  "ef_sm_loop file tmp r =
     (if tmp \<noteq> 0 \<and> r < 4
      then ef_sm_loop file (if acl_wants_pro file r then 0x03 else tmp) (r + 1)
      else tmp)"
  by pat_completeness auto
termination
  by (relation "measure (\<lambda>(file, tmp, r). 4 - r)") auto

declare ef_sm_loop.simps [simp del]

text \<open>\<open>sc_starcos_create_data\<close>: the tag with the header of its variant (19, 25 and 16
  bytes), and for a DF the two size bytes.\<close>

datatype sc_starcos_create_data =
    SC_STARCOS_MF_DATA "u8 list"
  | SC_STARCOS_DF_DATA "u8 list" "u8 list"
  | SC_STARCOS_EF_DATA "u8 list"

definition starcos_process_acl :: "sc_file \<Rightarrow> sc_error + sc_starcos_create_data" where
  "starcos_process_acl file =
     (let def_key = [0x01, 0x02, 0x03, 0x04, 0x05, 0x06, 0x07, 0x08] :: u8 list
      in if ftype file = SC_FILE_TYPE_DF \<and> fid file = 0x3f00
         then
           (let ac = process_acl_entry file SC_AC_OP_CREATE STARCOS_AC_ALWAYS;
                tmp = (if acl_wants_pro file SC_AC_OP_CREATE then 0x03 else 0x00)
            in Inr (SC_STARCOS_MF_DATA
                 (def_key
                  @ [of_nat (fsize file div 256), of_nat (fsize file),
                     of_nat (fsize file div 1024), of_nat (fsize file div 4),
                     ac, ac, ac, ac, tmp, tmp, tmp])))
         else if ftype file = SC_FILE_TYPE_DF
         then
           (let aid = (if length (fname file) \<noteq> 0
                       then [of_nat (length (fname file))]
                            @ take 16 (fname file @ replicate 16 0x00)
                       else [2, ucast (drop_bit 8 (fid file)), ucast (fid file)]
                            @ replicate 14 0x00);
                ac = process_acl_entry file SC_AC_OP_CREATE STARCOS_AC_ALWAYS;
                tmp = (if acl_wants_pro file SC_AC_OP_CREATE then 0x03 else 0x00)
            in Inr (SC_STARCOS_DF_DATA
                 ([ucast (drop_bit 8 (fid file)), ucast (fid file)] @ aid
                  @ [of_nat (fsize file div 1024), of_nat (fsize file div 4), ac, ac, tmp, tmp])
                 [of_nat (fsize file div 256), of_nat (fsize file)]))
         else if ftype file = SC_FILE_TYPE_WORKING_EF
         then
           (let tmp = ef_sm_loop file 0 0;
                header =
                  [ucast (drop_bit 8 (fid file)), ucast (fid file),
                   process_acl_entry file SC_AC_OP_READ STARCOS_AC_ALWAYS,
                   process_acl_entry file SC_AC_OP_WRITE STARCOS_AC_ALWAYS,
                   process_acl_entry file SC_AC_OP_ERASE STARCOS_AC_ALWAYS,
                   ucast STARCOS_AC_ALWAYS, ucast STARCOS_AC_ALWAYS,
                   ucast STARCOS_AC_ALWAYS, ucast STARCOS_AC_ALWAYS,
                   0x00, 0x00, tmp, 0x0]
            in if ftype file = SC_FILE_EF_TRANSPARENT
               then Inr (SC_STARCOS_EF_DATA
                      (header @ [0x81, of_nat (fsize file div 256), of_nat (fsize file)]))
               else if ftype file = SC_FILE_EF_LINEAR_FIXED
               then Inr (SC_STARCOS_EF_DATA
                      (header @ [0x82, of_nat (record_count file),
                                 of_nat (record_length file)]))
               else if ftype file = SC_FILE_EF_CYCLIC
               then Inr (SC_STARCOS_EF_DATA
                      (header @ [0x84, of_nat (record_count file),
                                 of_nat (record_length file)]))
               else Inl SC_ERROR_INVALID_ARGUMENTS)
         else Inl SC_ERROR_INVALID_ARGUMENTS)"

subsection \<open>File creation\<close>






subsection \<open>Key import\<close>

text \<open>\<open>sc_starcos_wkey_data\<close>. \<open>key\<close> is \<open>None\<close> for a \<open>NULL\<close> pointer and otherwise
  the \<open>key_len\<close> bytes it points to; \<open>key_header\<close> is an array of 12 bytes.\<close>

record sc_starcos_wkey_data =
  wk_mode :: u8
  kid :: u8
  key_header :: "u8 list"
  key :: "u8 list option"

definition STARCOS_WKEY_CSIZE :: nat where
  "STARCOS_WKEY_CSIZE = 124"

text \<open>The \<open>while (tlen)\<close> loop: \<open>p\<close> is what is left of the key (\<open>tlen\<close> is its length),
  \<open>offset\<close> the number of bytes sent.\<close>

function write_key_loop ::
  "env \<Rightarrow> sc_card \<Rightarrow> sc_starcos_wkey_data \<Rightarrow> u8 list \<Rightarrow> nat \<Rightarrow> sc_card \<times> (sc_error + unit)" where
  "write_key_loop e crd d p offset =
     (if length p \<noteq> 0
      then
        (let clen = (if length p < STARCOS_WKEY_CSIZE then length p else STARCOS_WKEY_CSIZE);
             sbuf = [0xc2, of_nat (3 + clen), kid d, of_nat (offset div 256), of_nat offset]
                    @ take clen p;
             apdu = (sc_format_apdu crd SC_APDU_CASE_3_SHORT 0xf4 (wk_mode d) 0x00)
                      \<lparr>cla := card_cla crd OR 0x80, data := sbuf\<rparr>
         in case sc_transmit_apdu e crd apdu of
              (crd1, Inl r) \<Rightarrow> (crd1, Inl r)
            | (crd1, Inr (sw1, sw2, resp)) \<Rightarrow>
                if sw1 \<noteq> 0x90 \<or> sw2 \<noteq> 0x00 then (crd1, sc_check_sw e sw1 sw2)
                else write_key_loop e crd1 d (drop clen p) (offset + clen))
      else (crd, Inr ()))"
  by pat_completeness auto
termination
  by (relation "measure (\<lambda>(e, crd, d, p, offset). length p)")
     (auto simp: STARCOS_WKEY_CSIZE_def)

declare write_key_loop.simps [simp del]

text \<open>The first part of \<open>starcos_write_key\<close>: with mode 0 the key header is installed.
  \<open>Some r\<close> is an early return with \<open>r\<close>.\<close>

definition install_key_header ::
  "env \<Rightarrow> sc_card \<Rightarrow> sc_starcos_wkey_data \<Rightarrow> sc_card \<times> (sc_error + unit) option" where
  "install_key_header e crd d =
     (if wk_mode d = 0
      then
        (let sbuf = [0xc1, 0x0c] @ take 12 (key_header d);
             apdu = (sc_format_apdu crd SC_APDU_CASE_3_SHORT 0xf4 (wk_mode d) 0x00)
                      \<lparr>cla := card_cla crd OR 0x80, data := sbuf\<rparr>
         in case sc_transmit_apdu e crd apdu of
              (crd1, Inl r) \<Rightarrow> (crd1, Some (Inl r))
            | (crd1, Inr (sw1, sw2, resp)) \<Rightarrow>
                if sw1 \<noteq> 0x90 \<or> sw2 \<noteq> 0x00 then (crd1, Some (sc_check_sw e sw1 sw2))
                else (crd1, None))
      else (crd, None))"

definition starcos_write_key ::
  "env \<Rightarrow> sc_card \<Rightarrow> sc_starcos_wkey_data \<Rightarrow> sc_card \<times> (sc_error + unit)" where
  "starcos_write_key e crd d =
     (case install_key_header e crd d of
        (crd1, Some r) \<Rightarrow> (crd1, r)
      | (crd1, None) \<Rightarrow>
          if key d = None \<and> wk_mode d = 0 then (crd1, Inr ())
          else write_key_loop e crd1 d (case key d of None \<Rightarrow> [] | Some k \<Rightarrow> k) 0)"

text \<open>The APDU that carries the chunk \<open>chunk\<close> of the key at offset \<open>offset\<close>, as the
  spec describes it: \<open>INS = F4\<close>, \<open>P1 = mode\<close>, class bit 0x80, body
  \<open>C2, 3 + clen, KID, offset.hi, offset.lo, chunk\<close>.\<close>

definition wkey_chunk_apdu :: "sc_card \<Rightarrow> sc_starcos_wkey_data \<Rightarrow> nat \<Rightarrow> u8 list \<Rightarrow> sc_apdu" where
  "wkey_chunk_apdu crd d offset chunk =
     \<lparr>cse = SC_APDU_CASE_3_SHORT, cla = card_cla crd OR 0x80, ins = 0xf4, p1 = wk_mode d,
      p2 = 0x00,
      data = [0xc2, of_nat (3 + length chunk), kid d, of_nat (offset div 256), of_nat offset]
             @ chunk,
      le = 0, resplen = 0, sensitive = False\<rparr>"

text \<open>The APDU that installs the key header.\<close>

definition wkey_header_apdu :: "sc_card \<Rightarrow> sc_starcos_wkey_data \<Rightarrow> sc_apdu" where
  "wkey_header_apdu crd d =
     \<lparr>cse = SC_APDU_CASE_3_SHORT, cla = card_cla crd OR 0x80, ins = 0xf4, p1 = wk_mode d,
      p2 = 0x00, data = [0xc1, 0x0c] @ take 12 (key_header d),
      le = 0, resplen = 0, sensitive = False\<rparr>"

subsection \<open>Key generation\<close>





subsection \<open>Security environment\<close>

text \<open>\<open>sc_security_env_t\<close>; \<open>key_ref\<close> holds the first \<open>key_ref_len\<close> bytes.\<close>

record sc_security_env =
  flags :: uint
  operation :: int
  algorithm :: uint
  algorithm_flags :: uint
  algorithm_ref :: uint
  key_ref :: "u8 list"

text \<open>What the SIGN branch decides about the algorithm reference: the bytes to append,
  the jump to \<open>try_authenticate\<close>, or \<open>INVALID_ARGUMENTS\<close>.\<close>

datatype alg_choice = ALG_BYTES "u8 list" | ALG_TRY_AUTHENTICATE | ALG_INVALID

definition sign_algorithm :: "sc_security_env \<Rightarrow> alg_choice" where
  "sign_algorithm senv =
     (if flags senv AND SC_SEC_ENV_ALG_REF_PRESENT \<noteq> 0
      then ALG_BYTES [0x80, 0x01, ucast (algorithm_ref senv AND 0xFF)]
      else if flags senv AND SC_SEC_ENV_ALG_PRESENT \<noteq> 0
              \<and> algorithm senv = SC_ALGORITHM_RSA
      then
        (if algorithm_flags senv AND SC_ALGORITHM_RSA_PAD_PKCS1 \<noteq> 0
         then
           (if algorithm_flags senv AND SC_ALGORITHM_RSA_HASH_SHA1 \<noteq> 0
            then ALG_BYTES [0x80, 0x01, 0x12]
            else if algorithm_flags senv AND SC_ALGORITHM_RSA_HASH_RIPEMD160 \<noteq> 0
            then ALG_BYTES [0x80, 0x01, 0x22]
            else if algorithm_flags senv AND SC_ALGORITHM_RSA_HASH_MD5 \<noteq> 0
            then ALG_BYTES [0x80, 0x01, 0x32]
            else ALG_TRY_AUTHENTICATE)
         else if algorithm_flags senv AND SC_ALGORITHM_RSA_PAD_ISO9796 \<noteq> 0
         then
           (if algorithm_flags senv AND SC_ALGORITHM_RSA_HASH_SHA1 \<noteq> 0
            then ALG_BYTES [0x80, 0x01, 0x11]
            else if algorithm_flags senv AND SC_ALGORITHM_RSA_HASH_RIPEMD160 \<noteq> 0
            then ALG_BYTES [0x80, 0x01, 0x21]
            else ALG_INVALID)
         else ALG_INVALID)
      else ALG_BYTES [])"

text \<open>The code from the label \<open>try_authenticate\<close> on; \<open>pp\<close> is the buffer up to the
  saved pointer (the key reference).\<close>

definition try_authenticate ::
  "env \<Rightarrow> sc_card \<Rightarrow> sc_security_env \<Rightarrow> u8 list \<Rightarrow> int \<Rightarrow> sc_card \<times> (sc_error + unit)" where
  "try_authenticate e crd senv pp op =
     (if op = SC_SEC_OPERATION_AUTHENTICATE
         \<and> algorithm_flags senv AND SC_ALGORITHM_RSA_PAD_PKCS1 \<noteq> 0
      then
        (let sbuf = pp @ [0x80, 0x01, 0x01];
             apdu = (sc_format_apdu crd SC_APDU_CASE_3_SHORT 0x22 0x41 0xa4)
                      \<lparr>data := sbuf, le := 0\<rparr>
         in case sc_transmit_apdu e crd apdu of
              (crd1, Inl r) \<Rightarrow> (crd1, Inl r)
            | (crd1, Inr (sw1, sw2, resp)) \<Rightarrow>
                if sw1 \<noteq> 0x90 \<or> sw2 \<noteq> 0x00 then (crd1, sc_check_sw e sw1 sw2)
                else (crd1\<lparr>drv_data := (drv_data crd1)
                              \<lparr>fix_digestInfo := algorithm_flags senv,
                               sec_ops := SC_SEC_OPERATION_AUTHENTICATE\<rparr>\<rparr>, Inr ()))
      else (crd, Inl SC_ERROR_INVALID_ARGUMENTS))"

text \<open>"copy key reference, if present": the bytes in \<open>sbuf\<close> up to the pointer \<open>pp\<close>.\<close>

definition copy_key_reference :: "sc_security_env \<Rightarrow> u8 list" where
  "copy_key_reference senv =
     (if flags senv AND SC_SEC_ENV_KEY_REF_PRESENT \<noteq> 0
      then [if flags senv AND SC_SEC_ENV_KEY_REF_ASYMMETRIC \<noteq> 0 then 0x83 else 0x84,
            of_nat (length (key_ref senv))] @ key_ref senv
      else [])"

definition starcos_set_security_env ::
  "env \<Rightarrow> sc_card \<Rightarrow> sc_security_env \<Rightarrow> int \<Rightarrow> sc_card \<times> (sc_error + unit)" where
  "starcos_set_security_env e crd senv se_num =
     (let op = operation senv;
          pp = copy_key_reference senv
      in if op = SC_SEC_OPERATION_DECIPHER
         then
           (if algorithm_flags senv AND SC_ALGORITHM_RSA_PAD_PKCS1 \<noteq> 0
            then
              (let apdu = (sc_format_apdu crd SC_APDU_CASE_3_SHORT 0x22 0x81 0xb8)
                            \<lparr>data := pp @ [0x80, 0x01, 0x02], le := 0\<rparr>
               in case sc_transmit_apdu e crd apdu of
                    (crd1, Inl r) \<Rightarrow> (crd1, Inl r)
                  | (crd1, Inr (sw1, sw2, resp)) \<Rightarrow>
                      if sw1 \<noteq> 0x90 \<or> sw2 \<noteq> 0x00 then (crd1, sc_check_sw e sw1 sw2)
                      else (crd1, Inr ()))
            else (crd, Inl SC_ERROR_INVALID_ARGUMENTS))
         else if op = SC_SEC_OPERATION_SIGN
                 \<and> (algorithm_flags senv AND SC_ALGORITHM_RSA_PAD_PKCS1 \<noteq> 0
                    \<or> algorithm_flags senv AND SC_ALGORITHM_RSA_PAD_ISO9796 \<noteq> 0)
         then
           (case sign_algorithm senv of
              ALG_TRY_AUTHENTICATE \<Rightarrow>
                try_authenticate e crd senv pp SC_SEC_OPERATION_AUTHENTICATE
            | ALG_INVALID \<Rightarrow> (crd, Inl SC_ERROR_INVALID_ARGUMENTS)
            | ALG_BYTES alg \<Rightarrow>
                (let apdu = (sc_format_apdu crd SC_APDU_CASE_3_SHORT 0x22 0x41 0xb6)
                              \<lparr>data := pp @ alg, le := 0\<rparr>
                 in case sc_transmit_apdu e crd apdu of
                      (crd1, Inl r) \<Rightarrow> (crd1, Inl r)
                    | (crd1, Inr (sw1, sw2, resp)) \<Rightarrow>
                        if sw1 = 0x90 \<and> sw2 = 0x00
                        then (crd1\<lparr>drv_data := (drv_data crd1)
                                      \<lparr>fix_digestInfo := 0,
                                       sec_ops := SC_SEC_OPERATION_SIGN\<rparr>\<rparr>, Inr ())
                        else try_authenticate e crd1 senv pp SC_SEC_OPERATION_AUTHENTICATE))
         else try_authenticate e crd senv pp op)"

subsection \<open>Signing\<close>

text \<open>The end of \<open>starcos_compute_signature\<close>, from the comment "clear old state" on.
  The function returns a length on success, so the status of \<open>sc_check_sw\<close> without an
  error is the length 0.\<close>

definition clear_old_state ::
  "env \<Rightarrow> sc_card \<Rightarrow> u8 \<Rightarrow> u8 \<Rightarrow> sc_card \<times> (sc_error + nat) \<times> u8 list option" where
  "clear_old_state e crd sw1 sw2 =
     (crd\<lparr>drv_data := (drv_data crd)\<lparr>sec_ops := 0, fix_digestInfo := 0\<rparr>\<rparr>,
      (case sc_check_sw e sw1 sw2 of Inl r \<Rightarrow> Inl r | Inr u \<Rightarrow> Inr 0),
      None)"

text \<open>"fix/create DigestInfo structure (if necessary)": what goes into \<open>sbuf\<close>, or the
  error of \<open>sc_pkcs1_encode\<close>.\<close>

definition fix_digest_info :: "env \<Rightarrow> starcos_ex_data \<Rightarrow> u8 list \<Rightarrow> sc_error + u8 list" where
  "fix_digest_info e ex_data dat =
     (if fix_digestInfo ex_data \<noteq> 0
      then
        (let fl = fix_digestInfo ex_data AND SC_ALGORITHM_RSA_HASHES
         in pkcs1_encode e (if fl = 0x0 then SC_ALGORITHM_RSA_HASH_NONE else fl)
              dat SC_MAX_APDU_BUFFER_SIZE)
      else Inr dat)"

text \<open>The result is the card, the return value (an error or the number of bytes copied)
  and the bytes stored in \<open>out\<close> (\<open>None\<close> when \<open>out\<close> is left alone).\<close>

definition starcos_compute_signature ::
  "env \<Rightarrow> sc_card \<Rightarrow> u8 list \<Rightarrow> nat \<Rightarrow> sc_card \<times> (sc_error + nat) \<times> u8 list option" where
  "starcos_compute_signature e crd dat outlen =
     (let ex_data = drv_data crd in
      if length dat > SC_MAX_APDU_BUFFER_SIZE
      then (crd, Inl SC_ERROR_INVALID_ARGUMENTS, None)
      else if sec_ops ex_data = SC_SEC_OPERATION_SIGN
      then
        (let apdu = (sc_format_apdu crd SC_APDU_CASE_3_SHORT 0x2A 0x90 0x81)
                      \<lparr>resplen := SC_MAX_APDU_BUFFER_SIZE, le := 0, data := dat\<rparr>
         in case sc_transmit_apdu e crd apdu of
              (crd1, Inl r) \<Rightarrow> (crd1, Inl r, None)
            | (crd1, Inr (sw1, sw2, resp)) \<Rightarrow>
                if sw1 \<noteq> 0x90 \<or> sw2 \<noteq> 0x00
                then (crd1, (case sc_check_sw e sw1 sw2 of Inl r \<Rightarrow> Inl r | Inr u \<Rightarrow> Inr 0),
                      None)
                else
                  (let apdu2 = (sc_format_apdu crd1 SC_APDU_CASE_2_SHORT 0x2A 0x9E 0x9A)
                                 \<lparr>resplen := SC_MAX_APDU_BUFFER_SIZE, le := 256,
                                  sensitive := True\<rparr>
                   in case sc_transmit_apdu e crd1 apdu2 of
                        (crd2, Inl r) \<Rightarrow> (crd2, Inl r, None)
                      | (crd2, Inr (sw1a, sw2a, rbuf)) \<Rightarrow>
                          if sw1a = 0x90 \<and> sw2a = 0x00
                          then
                            (let len = (if length rbuf > outlen then outlen else length rbuf)
                             in (crd2, Inr len, Some (take len rbuf)))
                          else clear_old_state e crd2 sw1a sw2a))
      else if sec_ops ex_data = SC_SEC_OPERATION_AUTHENTICATE
      then
        (case fix_digest_info e ex_data dat of
           Inl r \<Rightarrow> (crd, Inl r, None)
         | Inr sbuf \<Rightarrow>
             (let apdu = (sc_format_apdu crd SC_APDU_CASE_4_SHORT 0x88 0x10 0x00)
                           \<lparr>data := sbuf, resplen := SC_MAX_APDU_BUFFER_SIZE, le := 256\<rparr>
              in case sc_transmit_apdu e crd apdu of
                   (crd1, Inl r) \<Rightarrow> (crd1, Inl r, None)
                 | (crd1, Inr (sw1, sw2, rbuf)) \<Rightarrow>
                     if sw1 = 0x90 \<and> sw2 = 0x00
                     then
                       (let len = (if length rbuf > outlen then outlen else length rbuf)
                        in (crd1, Inr len, Some (take len rbuf)))
                     else clear_old_state e crd1 sw1 sw2))
      else (crd, Inl SC_ERROR_INVALID_ARGUMENTS, None))"

subsection \<open>Serial number\<close>




subsection \<open>Reading the log\<close>

text \<open>The card's answer to the last APDU of the log: the transport's error, or the
  status word and the response.\<close>

definition last_reply :: "env \<Rightarrow> sc_card \<Rightarrow> sc_error + (u8 \<times> u8 \<times> u8 list)" where
  "last_reply e crd = transmit e (butlast (apdu_log crd)) (last (apdu_log crd))"

text \<open>The error \<open>err\<close> is the outcome of the last exchange with the card: the transport
  failed with \<open>err\<close>, or \<open>err\<close> is the translation of the status word received.\<close>

definition from_last_exchange :: "env \<Rightarrow> sc_card \<Rightarrow> sc_error \<Rightarrow> bool" where
  "from_last_exchange e crd err =
     (case last_reply e crd of
        Inl r \<Rightarrow> err = r
      | Inr (sw1, sw2, resp) \<Rightarrow> sc_check_sw e sw1 sw2 = Inl err)"


text \<open>The data fields of the SELECT FILE by FID commands in a sequence of APDUs:
  the first APDU of every \<open>starcos_select_fid\<close> call (\<open>INS = A4\<close>, \<open>P1 = 00\<close>, case 4).\<close>

definition fid_selects :: "sc_apdu list \<Rightarrow> u8 list list" where
  "fid_selects lg =
     map data (filter (\<lambda>a. ins a = 0xA4 \<and> p1 a = 0x00 \<and> cse a = SC_APDU_CASE_4_SHORT) lg)"

text \<open>A path cut into its FIDs.\<close>

fun fid_pairs :: "u8 list \<Rightarrow> u8 list list" where
  "fid_pairs (a # b # rest) = [a, b] # fid_pairs rest"
| "fid_pairs rest = []"

text \<open>What the spec says \<open>bMatch\<close> is: "the number of leading bytes of the normalized
  path that agree with the cache (in steps of 2)".\<close>

fun spec_leading_match :: "u8 list \<Rightarrow> u8 list \<Rightarrow> nat" where
  "spec_leading_match (a # b # cache) (x # y # path) =
     (if a = x \<and> b = y then 2 + spec_leading_match cache path else 0)"
| "spec_leading_match cache path = 0"

section \<open>Concrete cards and environments\<close>

text \<open>A card handle after \<open>init\<close>: class byte 0, an empty cache, no serial number, a
  zeroed extension state, nothing sent yet.\<close>

definition card0 :: sc_card where
  "card0 =
     \<lparr>card_cla = 0x00, cache_valid = True,
      cache_current_path = \<lparr>pvalue = [], ptype = SC_PATH_TYPE_FILE_ID\<rparr>,
      serialnr = [], drv_data = \<lparr>sec_ops = 0, fix_digestInfo = 0\<rparr>, apdu_log = []\<rparr>"

text \<open>A card that answers every APDU with the status word \<open>(a, b)\<close> and the response
  \<open>r\<close>, behind a parent driver that maps every status word it is asked about to
  \<open>CARD_CMD_FAILED\<close>.\<close>

definition env_sw :: "u8 \<Rightarrow> u8 \<Rightarrow> u8 list \<Rightarrow> env" where
  "env_sw a b r =
     \<lparr>transmit = (\<lambda>h x. Inr (a, b, r)),
      iso_check_sw = (\<lambda>s t. Inl SC_ERROR_CARD_CMD_FAILED),
      malloc_ok = True,
      asn1_find_tag = (\<lambda>buf t. None),
      pkcs1_encode = (\<lambda>fl d n. Inr d),
      uninit = (\<lambda>i. 0xAA)\<rparr>"

text \<open>The AID of the spec's first scenario, and a card whose cache holds it.\<close>

definition aid_esign :: "u8 list" where
  "aid_esign = [0xA0, 0x00, 0x00, 0x01, 0x67, 0x45, 0x53, 0x49, 0x47, 0x4E]"

definition card_aid :: sc_card where
  "card_aid = card0\<lparr>cache_current_path :=
                      \<lparr>pvalue = aid_esign, ptype = SC_PATH_TYPE_DF_NAME\<rparr>\<rparr>"

text \<open>A key of 125 bytes to be written in update mode: one full chunk and one byte.\<close>

definition wkey125 :: sc_starcos_wkey_data where
  "wkey125 = \<lparr>wk_mode = 1, kid = 0x91, key_header = replicate 12 0x00,
              key = Some (replicate 125 0x11)\<rparr>"

text \<open>A card that answers 9000 to the commands with \<open>INS = F4\<close> and 6D00, "instruction
  not supported", to every other command.\<close>

definition env_f4 :: env where
  "env_f4 =
     (env_sw 0x90 0x00 [])
       \<lparr>transmit := (\<lambda>h x. if ins x = 0xf4 then Inr (0x90, 0x00, []) else Inr (0x6D, 0x00, []))\<rparr>"



text \<open>A security environment for SIGN with PKCS#1 padding and no hash, a key reference
  and no algorithm reference, once with the algorithm named (RSA) and once without.\<close>

definition senv_sign_none :: sc_security_env where
  "senv_sign_none =
     \<lparr>flags = SC_SEC_ENV_KEY_REF_PRESENT OR SC_SEC_ENV_ALG_PRESENT,
      operation = SC_SEC_OPERATION_SIGN, algorithm = SC_ALGORITHM_RSA,
      algorithm_flags = SC_ALGORITHM_RSA_PAD_PKCS1 OR SC_ALGORITHM_RSA_HASH_NONE,
      algorithm_ref = 0, key_ref = [0x02]\<rparr>"

definition senv_sign_noalg :: sc_security_env where
  "senv_sign_noalg = senv_sign_none\<lparr>flags := SC_SEC_ENV_KEY_REF_PRESENT\<rparr>"


text \<open>A card that refuses the MSE of COMPUTE SIGNATURE (\<open>P2 = B6\<close>) with 6A80 and
  answers 9000 to every other command.\<close>

definition env_no_sign :: env where
  "env_no_sign =
     (env_sw 0x90 0x00 [])
       \<lparr>transmit := (\<lambda>h x. if p2 x = 0xb6 then Inr (0x6A, 0x80, []) else Inr (0x90, 0x00, []))\<rparr>"

text \<open>A card on which \<open>set_security_env\<close> has installed SIGN.\<close>

definition card_sign :: sc_card where
  "card_sign = card0\<lparr>drv_data := \<lparr>sec_ops = SC_SEC_OPERATION_SIGN, fix_digestInfo = 0\<rparr>\<rparr>"

text \<open>A card that accepts PSO HASH (the first APDU it sees) and answers every later
  APDU with 6F08, "signature failed".\<close>

definition env_sign_fails :: env where
  "env_sign_fails =
     (env_sw 0x90 0x00 [])
       \<lparr>transmit := (\<lambda>h x. if h = [] then Inr (0x90, 0x00, []) else Inr (0x6F, 0x08, []))\<rparr>"

text \<open>A transparent working EF of 32 bytes whose READ ACL asks for secure messaging
  (method \<open>PRO\<close>), and an MF whose CREATE ACL does.\<close>

definition ef_pro :: sc_file where
  "ef_pro =
     sc_file_new
       \<lparr>ftype := SC_FILE_TYPE_WORKING_EF, ef_structure := SC_FILE_EF_TRANSPARENT,
        fsize := 32, fid := 0xEF01,
        acl := (\<lambda>r. if r = SC_AC_OP_READ
                     then Some \<lparr>acl_method = SC_AC_PRO, acl_key_ref = SC_AC_KEY_REF_NONE\<rparr>
                     else None)\<rparr>"

definition mf_pro :: sc_file where
  "mf_pro =
     sc_file_new
       \<lparr>ftype := SC_FILE_TYPE_DF, fsize := 0x2000, fid := 0x3F00,
        acl := (\<lambda>r. if r = SC_AC_OP_CREATE
                     then Some \<lparr>acl_method = SC_AC_PRO, acl_key_ref = SC_AC_KEY_REF_NONE\<rparr>
                     else None)\<rparr>"

text \<open>A card whose cache says that the MF is selected.\<close>

definition card_mf :: sc_card where
  "card_mf = card0\<lparr>cache_current_path :=
                     \<lparr>pvalue = [0x3f, 0x00], ptype = SC_PATH_TYPE_PATH\<rparr>\<rparr>"

text \<open>A card whose cache says that the DF \<open>3F 00 5F 00\<close> is selected.\<close>

definition card_df :: sc_card where
  "card_df = card0\<lparr>cache_current_path :=
                     \<lparr>pvalue = [0x3f, 0x00, 0x5f, 0x00], ptype = SC_PATH_TYPE_PATH\<rparr>\<rparr>"

section \<open>Theorems\<close>

subsection \<open>What a selection adds to the log\<close>

lemma finish_log: "apdu_log (fst (select_fid_finish e c hi lo fo d s1 s2 r)) = apdu_log c"
  by (simp add: select_fid_finish_def Let_def split: sum.splits)

lemma select_fid_log_grows:
  "length (apdu_log c) < length (apdu_log (fst (starcos_select_fid e c hi lo fo)))"
  by (simp add: starcos_select_fid_def Let_def sc_transmit_apdu_def finish_log
           split: sum.splits prod.splits)

lemma select_fid_log_grows':
  "starcos_select_fid e c hi lo fo = (c', r) \<Longrightarrow> length (apdu_log c) < length (apdu_log c')"
  using select_fid_log_grows[of c e hi lo fo] by simp

lemma select_fid_log_le:
  "length (apdu_log c) \<le> length (apdu_log (fst (starcos_select_fid e c hi lo fo)))"
  using select_fid_log_grows[of c e hi lo fo] by simp

lemma select_fid_log_trans:
  "n \<le> length (apdu_log c)
   \<Longrightarrow> n \<le> length (apdu_log (fst (starcos_select_fid e c hi lo fo)))"
  using select_fid_log_le[of c e hi lo fo] by simp

lemma select_aid_log_grows:
  "starcos_select_aid e c aid fo = (c', r) \<Longrightarrow> length (apdu_log c) < length (apdu_log c')"
  by (auto simp add: starcos_select_aid_def Let_def sc_transmit_apdu_def
           split: sum.splits prod.splits if_splits)

lemma select_aid_log_le:
  "length (apdu_log c) \<le> length (apdu_log (fst (starcos_select_aid e c aid fo)))"
  using select_aid_log_grows[of e c aid fo] by (cases "starcos_select_aid e c aid fo") auto

lemma select_path_loop_log:
  "select_path_loop e c path i = (c', r) \<Longrightarrow>
     length (apdu_log c) \<le> length (apdu_log c')
     \<and> (isl r \<longrightarrow> length (apdu_log c) < length (apdu_log c'))"
proof (induction e c path i arbitrary: c' r rule: select_path_loop.induct)
  case (1 e crd path i)
  show ?case
  proof (cases "i < length path - 2")
    case False
    with "1.prems" show ?thesis by (auto simp: select_path_loop.simps[of e crd path i])
  next
    case True
    obtain c1 r1 f1 where
      s: "starcos_select_fid e crd (ucast (path ! i)) (ucast (path ! (i + 1))) False
            = (c1, r1, f1)"
      by (cases "starcos_select_fid e crd (ucast (path ! i)) (ucast (path ! (i + 1))) False")
         auto
    from select_fid_log_grows'[OF s]
    have g: "length (apdu_log crd) < length (apdu_log c1)" .
    show ?thesis
    proof (cases r1)
      case (Inl err)
      with True s "1.prems" g show ?thesis
        by (auto simp: select_path_loop.simps[of e crd path i])
    next
      case (Inr u)
      with True s "1.prems" have "select_path_loop e c1 path (i + 2) = (c', r)"
        by (simp add: select_path_loop.simps[of e crd path i])
      from "1.IH"[OF True s[symmetric] refl Inr this] g show ?thesis by auto
    qed
  qed
qed

text \<open>A call of \<open>starcos_select_file\<close> that returns never shortens the log: by the
  induction rule of the partial function, over the calls it makes to itself.\<close>

lemma select_file_log_mono:
  assumes a: "starcos_select_file e c p fo = Some res"
  shows "length (apdu_log c) \<le> length (apdu_log (fst res))"
proof (rule starcos_select_file.raw_induct
         [where P = "\<lambda>e c p fo res. length (apdu_log c) \<le> length (apdu_log (fst res))",
          OF _ a],
       goal_cases)
  case (1 sf e crd in_path file_out ea)
  from "1"(2) show ?case
    apply (simp only: Let_def split: if_splits prod.splits sum.splits)
    apply (auto simp: select_fid_log_le select_aid_log_le
                intro!: select_fid_log_trans
                dest!: select_fid_log_grows' select_path_loop_log "1"(1))
    done
qed

subsection \<open>Rejected paths\<close>

lemma take2_eq: "length p = 6 \<Longrightarrow> (take 2 p \<noteq> [a, b]) = (p ! 0 \<noteq> a \<or> p ! 1 \<noteq> b)"
  by (cases p; cases "tl p") auto

lemma select_file_bad_path:
  assumes "ptype in_path = SC_PATH_TYPE_PATH"
    and "odd (length (pvalue in_path)) \<or> length (pvalue in_path) = 0
         \<or> 6 < length (pvalue in_path)
         \<or> (length (pvalue in_path) = 6 \<and> take 2 (pvalue in_path) \<noteq> [0x3f, 0x00])"
  shows "starcos_select_file e crd in_path fo
           = Some (crd, Inl SC_ERROR_INVALID_ARGUMENTS, None)"
  using assms
  by (subst starcos_select_file.simps) (auto simp: Let_def take2_eq)

text \<open>On a path that passes the checks, an error comes with at least one APDU sent,
  but for the allocation failure of the cache hit.\<close>

lemma select_file_good_path:
  assumes t: "ptype in_path = SC_PATH_TYPE_PATH"
    and v: "\<not> (odd (length (pvalue in_path)) \<or> length (pvalue in_path) = 0
         \<or> 6 < length (pvalue in_path)
         \<or> (length (pvalue in_path) = 6 \<and> take 2 (pvalue in_path) \<noteq> [0x3f, 0x00]))"
    and r: "starcos_select_file e crd in_path fo = Some (crd', Inl err, f)"
  shows "err = SC_ERROR_OUT_OF_MEMORY \<and> crd' = crd
         \<or> length (apdu_log crd) < length (apdu_log crd')"
proof -
  have v6: "length (pvalue in_path) = 6
            \<Longrightarrow> \<not> (pvalue in_path ! 0 \<noteq> 0x3f \<or> pvalue in_path ! 1 \<noteq> 0x00)"
    using v take2_eq[of "pvalue in_path" "0x3f" "0x00"] by auto
  from r show ?thesis
    apply (subst (asm) starcos_select_file.simps)
    using t v v6
    apply (simp only: Let_def split: if_splits prod.splits sum.splits)
    apply (auto dest!: select_fid_log_grows' select_path_loop_log select_file_log_mono)
    done
qed

text \<open>
  C8. For every \<open>select_file\<close> call with a PATH-type input, the call fails with
  \<open>INVALID_ARGUMENTS\<close> and no APDU issued exactly when the path has odd length,
  length 0, length greater than 6, or length 6 with the first two bytes not \<open>3F 00\<close>.
\<close>

theorem select_file_path_rejected_iff:
  assumes "ptype in_path = SC_PATH_TYPE_PATH"
  shows "(\<exists>crd' f. starcos_select_file e crd in_path fo
                      = Some (crd', Inl SC_ERROR_INVALID_ARGUMENTS, f)
                  \<and> apdu_log crd' = apdu_log crd)
       \<longleftrightarrow> (odd (length (pvalue in_path)) \<or> length (pvalue in_path) = 0
            \<or> 6 < length (pvalue in_path)
            \<or> (length (pvalue in_path) = 6 \<and> take 2 (pvalue in_path) \<noteq> [0x3f, 0x00]))"
  using select_file_bad_path[OF assms, of e crd fo]
        select_file_good_path[OF assms, of e crd fo]
  by (metis less_irrefl sc_error.distinct(1))

theorem select_file_path_rejected_iff_witness:
  "ptype \<lparr>pvalue = [0x3f, 0x00, 0x5f], ptype = SC_PATH_TYPE_PATH\<rparr> = SC_PATH_TYPE_PATH
   \<and> (\<exists>crd' f. starcos_select_file (env_sw 0x90 0x00 []) card0
                    \<lparr>pvalue = [0x3f, 0x00, 0x5f], ptype = SC_PATH_TYPE_PATH\<rparr> True
                  = Some (crd', Inl SC_ERROR_INVALID_ARGUMENTS, f)
               \<and> apdu_log crd' = apdu_log card0)
   \<and> \<not> (\<exists>crd' f. starcos_select_file (env_sw 0x90 0x00 []) card0
                    \<lparr>pvalue = [0x3f, 0x00], ptype = SC_PATH_TYPE_PATH\<rparr> True
                  = Some (crd', Inl SC_ERROR_INVALID_ARGUMENTS, f)
               \<and> apdu_log crd' = apdu_log card0)"
  using select_file_path_rejected_iff
          [of "\<lparr>pvalue = [0x3f, 0x00, 0x5f], ptype = SC_PATH_TYPE_PATH\<rparr>"
              "env_sw 0x90 0x00 []" card0 True]
        select_file_path_rejected_iff
          [of "\<lparr>pvalue = [0x3f, 0x00], ptype = SC_PATH_TYPE_PATH\<rparr>"
              "env_sw 0x90 0x00 []" card0 True]
  by simp

subsection \<open>Selection by AID\<close>

text \<open>
  C10. For every \<open>select_file\<close> call with a DF_NAME path equal to the currently valid
  cached AID and a non-\<open>NULL\<close> \<open>file_out\<close>, the call returns success, leaves the card
  handle as it was (so no APDU is sent) and stores nothing in \<open>*file_out\<close>; when the
  cache does not hold the AID and the card answers 9000, the same call sends the SELECT
  and stores a DF descriptor that carries the AID.
\<close>

theorem select_file_aid_cache_hit:
  "(cache_valid crd
      \<and> cache_current_path crd = \<lparr>pvalue = aid, ptype = SC_PATH_TYPE_DF_NAME\<rparr>
    \<longrightarrow> starcos_select_file e crd \<lparr>pvalue = aid, ptype = SC_PATH_TYPE_DF_NAME\<rparr> True
          = Some (crd, Inr (), None))
   \<and> (\<not> (cache_valid crd
          \<and> cache_current_path crd = \<lparr>pvalue = aid, ptype = SC_PATH_TYPE_DF_NAME\<rparr>)
      \<and> transmit e (apdu_log crd)
            ((sc_format_apdu crd SC_APDU_CASE_3_SHORT 0xA4 0x04 0x0C)
               \<lparr>data := aid, resplen := 0, le := 0\<rparr>) = Inr (0x90, 0x00, resp)
      \<and> malloc_ok e
    \<longrightarrow> (\<exists>crd' f. starcos_select_file e crd
                       \<lparr>pvalue = aid, ptype = SC_PATH_TYPE_DF_NAME\<rparr> True
                     = Some (crd', Inr (), Some f)
                  \<and> ftype f = SC_FILE_TYPE_DF \<and> fname f = aid
                  \<and> apdu_log crd'
                      = apdu_log crd @ [(sc_format_apdu crd SC_APDU_CASE_3_SHORT 0xA4 0x04 0x0C)
                                          \<lparr>data := aid, resplen := 0, le := 0\<rparr>]))"
proof (intro conjI impI)
  assume "cache_valid crd
      \<and> cache_current_path crd = \<lparr>pvalue = aid, ptype = SC_PATH_TYPE_DF_NAME\<rparr>"
  then show "starcos_select_file e crd \<lparr>pvalue = aid, ptype = SC_PATH_TYPE_DF_NAME\<rparr> True
          = Some (crd, Inr (), None)"
    by (subst starcos_select_file.simps) (simp add: Let_def)
next
  assume h: "\<not> (cache_valid crd
          \<and> cache_current_path crd = \<lparr>pvalue = aid, ptype = SC_PATH_TYPE_DF_NAME\<rparr>)
      \<and> transmit e (apdu_log crd)
            ((sc_format_apdu crd SC_APDU_CASE_3_SHORT 0xA4 0x04 0x0C)
               \<lparr>data := aid, resplen := 0, le := 0\<rparr>) = Inr (0x90, 0x00, resp)
      \<and> malloc_ok e"
  then have miss: "\<not> (cache_valid crd
            \<and> ptype (cache_current_path crd) = SC_PATH_TYPE_DF_NAME
            \<and> length (pvalue (cache_current_path crd)) = length aid
            \<and> pvalue (cache_current_path crd) = aid)"
    by (cases "cache_current_path crd") auto
  have "starcos_select_file e crd \<lparr>pvalue = aid, ptype = SC_PATH_TYPE_DF_NAME\<rparr> True
          = Some (starcos_select_aid e crd aid True)"
    using miss by (subst starcos_select_file.simps) (auto simp add: Let_def)
  with h show "\<exists>crd' f. starcos_select_file e crd
                       \<lparr>pvalue = aid, ptype = SC_PATH_TYPE_DF_NAME\<rparr> True
                     = Some (crd', Inr (), Some f)
                  \<and> ftype f = SC_FILE_TYPE_DF \<and> fname f = aid
                  \<and> apdu_log crd'
                      = apdu_log crd @ [(sc_format_apdu crd SC_APDU_CASE_3_SHORT 0xA4 0x04 0x0C)
                                          \<lparr>data := aid, resplen := 0, le := 0\<rparr>]"
    by (simp add: starcos_select_aid_def Let_def sc_transmit_apdu_def)
qed

theorem select_file_aid_cache_hit_witness:
  "cache_valid card_aid
   \<and> cache_current_path card_aid = \<lparr>pvalue = aid_esign, ptype = SC_PATH_TYPE_DF_NAME\<rparr>
   \<and> starcos_select_file (env_sw 0x90 0x00 []) card_aid
        \<lparr>pvalue = aid_esign, ptype = SC_PATH_TYPE_DF_NAME\<rparr> True
       = Some (card_aid, Inr (), None)
   \<and> cache_current_path card0 \<noteq> \<lparr>pvalue = aid_esign, ptype = SC_PATH_TYPE_DF_NAME\<rparr>
   \<and> malloc_ok (env_sw 0x90 0x00 [])
   \<and> (\<exists>crd' f. starcos_select_file (env_sw 0x90 0x00 []) card0
                   \<lparr>pvalue = aid_esign, ptype = SC_PATH_TYPE_DF_NAME\<rparr> True
                 = Some (crd', Inr (), Some f)
              \<and> ftype f = SC_FILE_TYPE_DF \<and> fname f = aid_esign
              \<and> length (apdu_log crd') = 1)"
proof -
  have a: "cache_valid card_aid
   \<and> cache_current_path card_aid = \<lparr>pvalue = aid_esign, ptype = SC_PATH_TYPE_DF_NAME\<rparr>"
    by (simp add: card_aid_def card0_def)
  have b: "\<not> (cache_valid card0
          \<and> cache_current_path card0 = \<lparr>pvalue = aid_esign, ptype = SC_PATH_TYPE_DF_NAME\<rparr>)
      \<and> transmit (env_sw 0x90 0x00 []) (apdu_log card0)
            ((sc_format_apdu card0 SC_APDU_CASE_3_SHORT 0xA4 0x04 0x0C)
               \<lparr>data := aid_esign, resplen := 0, le := 0\<rparr>) = Inr (0x90, 0x00, [])
      \<and> malloc_ok (env_sw 0x90 0x00 [])"
    by (simp add: card0_def env_sw_def)
  from select_file_aid_cache_hit [of card_aid aid_esign "env_sw 0x90 0x00 []" "[]"] a
  have 1: "starcos_select_file (env_sw 0x90 0x00 []) card_aid
        \<lparr>pvalue = aid_esign, ptype = SC_PATH_TYPE_DF_NAME\<rparr> True
       = Some (card_aid, Inr (), None)"
    by blast
  from select_file_aid_cache_hit [of card0 aid_esign "env_sw 0x90 0x00 []" "[]"] b
  obtain crd' f where 2: "starcos_select_file (env_sw 0x90 0x00 []) card0
                   \<lparr>pvalue = aid_esign, ptype = SC_PATH_TYPE_DF_NAME\<rparr> True
                 = Some (crd', Inr (), Some f)"
       "ftype f = SC_FILE_TYPE_DF" "fname f = aid_esign"
       "apdu_log crd' = apdu_log card0 @ [(sc_format_apdu card0 SC_APDU_CASE_3_SHORT 0xA4 0x04 0x0C)
                                          \<lparr>data := aid_esign, resplen := 0, le := 0\<rparr>]"
    by blast
  from 2(4) have 3: "length (apdu_log crd') = 1" by (simp add: card0_def)
  have c: "cache_current_path card0
             \<noteq> \<lparr>pvalue = aid_esign, ptype = SC_PATH_TYPE_DF_NAME\<rparr>"
    by (simp add: card0_def)
  from a b c 1 2 3 show ?thesis by blast
qed

subsection \<open>Key import\<close>

lemma upt_map_shift: "map f [0..<Suc n] = f 0 # map (\<lambda>i. f (Suc i)) [0..<n]"
  by (simp add: upt_conv_Cons map_Suc_upt[symmetric] del: upt_Suc)

lemma chunks_count: "0 < n \<Longrightarrow> (n + 123) div 124 = Suc ((n - min n 124 + 123) div 124)" for n :: nat
  by (cases "n < 124") (auto simp: min_def  div_eq_0_iff)

lemma wkey_chunk_apdu_log [simp]:
  "wkey_chunk_apdu (crd\<lparr>apdu_log := l\<rparr>) d off ch = wkey_chunk_apdu crd d off ch"
  by (simp add: wkey_chunk_apdu_def)

lemma write_key_loop_ok:
  assumes ch: "chunks = map (\<lambda>i. wkey_chunk_apdu crd d (offset + i * 124)
                                   (take 124 (drop (i * 124) p)))
                            [0..<(length p + 123) div 124]"
    and ok: "\<forall>i < length chunks.
               \<exists>resp. transmit e (apdu_log crd @ take i chunks) (chunks ! i)
                        = Inr (0x90, 0x00, resp)"
  shows "write_key_loop e crd d p offset = (crd\<lparr>apdu_log := apdu_log crd @ chunks\<rparr>, Inr ())"
  using ch ok
proof (induction "length p" arbitrary: p crd offset chunks rule: less_induct)
  case less
  note ch = less.prems(1) and ok = less.prems(2)
  show ?case
  proof (cases "length p \<noteq> 0")
    case False
    then show ?thesis using ch by (subst write_key_loop.simps) simp
  next
    case True
    define clen where "clen = min (length p) 124"
    define apdu where "apdu = wkey_chunk_apdu crd d offset (take 124 p)"
    define crd1 where "crd1 = crd\<lparr>apdu_log := apdu_log crd @ [apdu]\<rparr>"
    define rest where
      "rest = map (\<lambda>i. wkey_chunk_apdu crd1 d (offset + clen + i * 124)
                        (take 124 (drop (i * 124) (drop clen p))))
                  [0..<(length (drop clen p) + 123) div 124]"
    have cnt: "(length p + 123) div 124 = Suc ((length (drop clen p) + 123) div 124)"
      using True chunks_count[of "length p"] by (simp add: clen_def)
    have tail: "rest
              = map (\<lambda>i. wkey_chunk_apdu crd d (offset + Suc i * 124) (take 124 (drop (Suc i * 124) p)))
                  [0..<(length (drop clen p) + 123) div 124]"
    proof (cases "length p \<le> 124")
      case True
      then show ?thesis by (simp add: rest_def clen_def min_def)
    next
      case False
      then have "clen = 124" by (simp add: clen_def min_def)
      then show ?thesis by (simp add: rest_def crd1_def ac_simps)
    qed
    have split: "chunks = apdu # rest"
      unfolding ch cnt upt_map_shift tail by (simp add: apdu_def)
    have "0 < length chunks" using split by simp
    with ok have "\<exists>resp. transmit e (apdu_log crd @ take 0 chunks) (chunks ! 0)
                        = Inr (0x90, 0x00, resp)" by blast
    then obtain resp where r: "transmit e (apdu_log crd) apdu = Inr (0x90, 0x00, resp)"
      using split by auto
    have tk: "take clen p = take 124 p" by (simp add: clen_def min_def)
    have ln: "length (take 124 p) = clen" by (simp add: clen_def min_def)
    have c0: "(if length p < STARCOS_WKEY_CSIZE then length p else STARCOS_WKEY_CSIZE) = clen"
      by (simp add: clen_def STARCOS_WKEY_CSIZE_def min_def)
    have apdu_eq:
      "(sc_format_apdu crd SC_APDU_CASE_3_SHORT 0xf4 (wk_mode d) 0x00)
         \<lparr>cla := card_cla crd OR 0x80,
          data := [0xc2, of_nat (3 + clen), kid d, of_nat (offset div 256), of_nat offset]
                  @ take clen p\<rparr> = apdu"
      unfolding apdu_def wkey_chunk_apdu_def sc_format_apdu_def tk ln by simp
    have tr: "sc_transmit_apdu e crd apdu = (crd1, Inr (0x90, 0x00, take (resplen apdu) resp))"
      using r by (simp add: sc_transmit_apdu_def crd1_def)
    have step: "write_key_loop e crd d p offset = write_key_loop e crd1 d (drop clen p) (offset + clen)"
      apply (subst write_key_loop.simps)
      apply (simp only: Let_def c0 apdu_eq tr)
      using True apply simp
      done
    have shorter: "length (drop clen p) < length p" using True by (simp add: clen_def min_def)
    have ok1: "\<forall>i < length rest.
               \<exists>resp. transmit e (apdu_log crd1 @ take i rest) (rest ! i)
                        = Inr (0x90, 0x00, resp)"
    proof (intro allI impI)
      fix i assume "i < length rest"
      then have "Suc i < length chunks" using split by simp
      with ok have "\<exists>resp. transmit e (apdu_log crd @ take (Suc i) chunks) (chunks ! Suc i)
                        = Inr (0x90, 0x00, resp)" by blast
      then show "\<exists>resp. transmit e (apdu_log crd1 @ take i rest) (rest ! i)
                        = Inr (0x90, 0x00, resp)"
        using split by (simp add: crd1_def)
    qed
    have IH: "write_key_loop e crd1 d (drop clen p) (offset + clen)
                = (crd1\<lparr>apdu_log := apdu_log crd1 @ rest\<rparr>, Inr ())"
      by (rule less.hyps[OF shorter rest_def ok1])
    show ?thesis
      unfolding step IH split by (simp add: crd1_def)
  qed
qed


lemma ceil_div: "((L::nat) + 123) div 124 = L div 124 + (if L mod 124 = 0 then 0 else 1)"
proof -
  define q r where "q = L div 124" and "r = L mod 124"
  have L: "L = 124 * q + r" and r: "r < 124" by (simp_all add: q_def r_def)
  have "124 * q + r + 123 = (r + 123) + 124 * q" by linarith
  also have "\<dots> div 124 = q + (r + 123) div 124" by (rule div_mult_self2) simp
  finally have "(124 * q + r + 123) div 124 = q + (r + 123) div 124" .
  moreover have "(r + 123) div 124 = (if r = 0 then 0 else 1)"
    using r by (auto simp: div_eq_0_iff intro!: div_nat_eqI)
  ultimately have "(L + 123) div 124 = q + (if r = 0 then 0 else 1)"
    using L by metis
  then show ?thesis by (simp only: q_def r_def)
qed

lemma chunk_length:
  fixes L :: nat
  assumes "i < (L + 123) div 124"
  shows "min (L - i * 124) 124
         = (if Suc i < (L + 123) div 124 then 124
            else if L mod 124 = 0 then 124 else L mod 124)"
proof -
  define q r where "q = L div 124" and "r = L mod 124"
  have L: "L = 124 * q + r" and r: "r < 124" by (simp_all add: q_def r_def)
  have n: "(L + 123) div 124 = q + (if r = 0 then 0 else 1)"
    unfolding ceil_div q_def r_def ..
  show ?thesis
  proof (cases "Suc i < (L + 123) div 124")
    case True
    with n have "Suc i \<le> q" by (auto split: if_splits)
    then have "124 * Suc i \<le> 124 * q" by simp
    with L have "124 \<le> L - i * 124" by simp
    with True show ?thesis by simp
  next
    case False
    with assms have e: "Suc i = (L + 123) div 124" by simp
    show ?thesis
    proof (cases "r = 0")
      case True
      with e n have "Suc i = q" by simp
      then have "L - i * 124 = 124" using L True by (cases q) auto
      with False True show ?thesis by (simp add: r_def)
    next
      case nz: False
      with e n have "i = q" by simp
      then have "L - i * 124 = r" using L by simp
      with False nz r show ?thesis by (simp add: r_def)
    qed
  qed
qed

lemma install_key_header_ok:
  assumes ok: "wk_mode d = 0 \<Longrightarrow>
                 \<exists>resp. transmit e (apdu_log crd) (wkey_header_apdu crd d) = Inr (0x90, 0x00, resp)"
  shows "install_key_header e crd d =
           (crd\<lparr>apdu_log := apdu_log crd @ (if wk_mode d = 0 then [wkey_header_apdu crd d] else [])\<rparr>, None)"
proof (cases "wk_mode d = 0")
  case False
  then show ?thesis by (simp add: install_key_header_def)
next
  case True
  have eq: "(sc_format_apdu crd SC_APDU_CASE_3_SHORT 0xf4 (wk_mode d) 0x00)
                      \<lparr>cla := card_cla crd OR 0x80, data := [0xc1, 0x0c] @ take 12 (key_header d)\<rparr>
            = wkey_header_apdu crd d"
    by (simp add: wkey_header_apdu_def sc_format_apdu_def)
  obtain resp where "transmit e (apdu_log crd) (wkey_header_apdu crd d) = Inr (0x90, 0x00, resp)"
    using ok True by blast
  then show ?thesis
    using True unfolding install_key_header_def Let_def eq
    by (simp add: sc_transmit_apdu_def)
qed

lemma write_key_run:
  assumes k: "key d = Some k" "k \<noteq> []"
    and sent: "sent = (if wk_mode d = 0 then [wkey_header_apdu crd d] else [])
                      @ map (\<lambda>i. wkey_chunk_apdu crd d (i * 124) (take 124 (drop (i * 124) k)))
                          [0..<(length k + 123) div 124]"
    and ok: "\<forall>i < length sent.
               \<exists>resp. transmit e (apdu_log crd @ take i sent) (sent ! i) = Inr (0x90, 0x00, resp)"
  shows "starcos_write_key e crd d = (crd\<lparr>apdu_log := apdu_log crd @ sent\<rparr>, Inr ())"
proof -
  define hdr where "hdr = (if wk_mode d = 0 then [wkey_header_apdu crd d] else [])"
  define chunks where
    "chunks = map (\<lambda>i. wkey_chunk_apdu crd d (i * 124) (take 124 (drop (i * 124) k)))
                          [0..<(length k + 123) div 124]"
  define crd1 where "crd1 = crd\<lparr>apdu_log := apdu_log crd @ hdr\<rparr>"
  have s: "sent = hdr @ chunks" by (simp add: sent hdr_def chunks_def)
  have ne: "chunks \<noteq> []"
  proof -
    have "0 < length k" using k(2) by simp
    then have "0 < (length k + 123) div 124" by (simp add: div_greater_zero_iff Suc_le_eq)
    then show ?thesis by (simp add: chunks_def)
  qed
  have h: "wk_mode d = 0 \<Longrightarrow>
             \<exists>resp. transmit e (apdu_log crd) (wkey_header_apdu crd d) = Inr (0x90, 0x00, resp)"
  proof -
    assume m: "wk_mode d = 0"
    then have "0 < length sent" by (simp add: s hdr_def)
    with ok have "\<exists>resp. transmit e (apdu_log crd @ take 0 sent) (sent ! 0) = Inr (0x90, 0x00, resp)"
      by blast
    with m show ?thesis by (simp add: s hdr_def)
  qed
  have ih: "install_key_header e crd d = (crd1, None)"
    using install_key_header_ok[OF h] by (simp add: crd1_def hdr_def)
  have ch1: "chunks = map (\<lambda>i. wkey_chunk_apdu crd1 d (0 + i * 124)
                                   (take 124 (drop (i * 124) k)))
                            [0..<(length k + 123) div 124]"
    by (simp add: chunks_def crd1_def)
  have ok1: "\<forall>i < length chunks.
               \<exists>resp. transmit e (apdu_log crd1 @ take i chunks) (chunks ! i)
                        = Inr (0x90, 0x00, resp)"
  proof (intro allI impI)
    fix i assume i: "i < length chunks"
    then have "length hdr + i < length sent" by (simp add: s)
    with ok have "\<exists>resp. transmit e (apdu_log crd @ take (length hdr + i) sent)
                            (sent ! (length hdr + i)) = Inr (0x90, 0x00, resp)" by blast
    then show "\<exists>resp. transmit e (apdu_log crd1 @ take i chunks) (chunks ! i)
                        = Inr (0x90, 0x00, resp)"
      by (simp add: s crd1_def nth_append)
  qed
  from write_key_loop_ok[OF ch1 ok1]
  have lp: "write_key_loop e crd1 d k 0 = (crd1\<lparr>apdu_log := apdu_log crd1 @ chunks\<rparr>, Inr ())" .
  show ?thesis
    using k by (simp add: starcos_write_key_def ih[unfolded crd1_def] lp[unfolded crd1_def] s)
qed


text \<open>
  C6. For every \<open>write_key\<close> call with a non-empty key of \<open>key_len\<close> bytes in which
  every card response is 9000 (the card answers 9000 to each APDU of the call, sent after
  the ones before it), the APDUs sent are the key header (mode 0 only) followed
  by exactly \<open>ceil(key_len / 124)\<close> data chunks; chunk \<open>i\<close> has the body
  \<open>C2, 3 + clen, KID, offset.hi, offset.lo, data\<close> with the offset \<open>124 * i\<close>, which is the
  number of key bytes already sent; every chunk but the last carries 124 bytes and the
  last carries \<open>key_len mod 124\<close> bytes, or 124 when \<open>key_len\<close> is a multiple of 124.
\<close>

theorem write_key_chunks:
  assumes k: "key d = Some k" "k \<noteq> []"
    and sent: "sent = (if wk_mode d = 0 then [wkey_header_apdu crd d] else [])
                      @ map (\<lambda>i. wkey_chunk_apdu crd d (i * 124) (take 124 (drop (i * 124) k)))
                          [0..<(length k + 123) div 124]"
    and ok: "\<forall>i < length sent.
               \<exists>resp. transmit e (apdu_log crd @ take i sent) (sent ! i) = Inr (0x90, 0x00, resp)"
  shows "starcos_write_key e crd d =
           (crd\<lparr>apdu_log := apdu_log crd
                    @ (if wk_mode d = 0 then [wkey_header_apdu crd d] else [])
                    @ map (\<lambda>i. wkey_chunk_apdu crd d (i * 124) (take 124 (drop (i * 124) k)))
                        [0..<(length k + 123) div 124]\<rparr>, Inr ())
       \<and> (\<forall>i < (length k + 123) div 124.
             length (take 124 (drop (i * 124) k))
               = (if Suc i < (length k + 123) div 124 then 124
                  else if length k mod 124 = 0 then 124 else length k mod 124)
           \<and> i * 124 = (\<Sum>j < i. length (take 124 (drop (j * 124) k))))"
proof (intro conjI allI impI)
  show "starcos_write_key e crd d =
           (crd\<lparr>apdu_log := apdu_log crd
                    @ (if wk_mode d = 0 then [wkey_header_apdu crd d] else [])
                    @ map (\<lambda>i. wkey_chunk_apdu crd d (i * 124) (take 124 (drop (i * 124) k)))
                        [0..<(length k + 123) div 124]\<rparr>, Inr ())"
    using write_key_run[OF k sent ok] unfolding sent .
next
  fix i assume i: "i < (length k + 123) div 124"
  show "length (take 124 (drop (i * 124) k))
               = (if Suc i < (length k + 123) div 124 then 124
                  else if length k mod 124 = 0 then 124 else length k mod 124)"
    using chunk_length[OF i] by simp
  have "\<And>j. j < i \<Longrightarrow> length (take 124 (drop (j * 124) k)) = 124"
  proof -
    fix j assume "j < i"
    with i have j: "j < (length k + 123) div 124" "Suc j < (length k + 123) div 124" by auto
    from chunk_length[OF j(1)] j(2) show "length (take 124 (drop (j * 124) k)) = 124" by simp
  qed
  then show "i * 124 = (\<Sum>j < i. length (take 124 (drop (j * 124) k)))" by simp
qed

theorem write_key_chunks_witness:
  "key wkey125 = Some (replicate 125 0x11)
   \<and> replicate 125 (0x11 :: u8) \<noteq> []
   \<and> transmit env_f4 (apdu_log card0)
         (wkey_chunk_apdu card0 wkey125 0 (replicate 124 0x11)) = Inr (0x90, 0x00, [])
   \<and> transmit env_f4 (apdu_log card0 @ [wkey_chunk_apdu card0 wkey125 0 (replicate 124 0x11)])
         (wkey_chunk_apdu card0 wkey125 124 [0x11]) = Inr (0x90, 0x00, [])
   \<and> transmit env_f4 [] (sc_format_apdu card0 SC_APDU_CASE_3_SHORT 0xA4 0x00 0x0C)
       = Inr (0x6D, 0x00, [])
   \<and> starcos_write_key env_f4 card0 wkey125
       = (card0\<lparr>apdu_log := [wkey_chunk_apdu card0 wkey125 0 (replicate 124 0x11),
                               wkey_chunk_apdu card0 wkey125 124 [0x11]]\<rparr>, Inr ())"
proof -
  let ?sent = "[wkey_chunk_apdu card0 wkey125 0 (replicate 124 0x11),
                wkey_chunk_apdu card0 wkey125 124 [0x11]]"
  have k: "key wkey125 = Some (replicate 125 0x11)" "replicate 125 (0x11 :: u8) \<noteq> []"
    by (simp_all add: wkey125_def)
  have m: "wk_mode wkey125 \<noteq> 0" by (simp add: wkey125_def)
  have u: "[0..<2] = [0, 1]" by (simp add: upt_conv_Cons)
  have d: "drop 124 (replicate 125 (0x11 :: u8)) = [0x11]" by simp
  have sent: "?sent = (if wk_mode wkey125 = 0 then [wkey_header_apdu card0 wkey125] else [])
                      @ map (\<lambda>i. wkey_chunk_apdu card0 wkey125 (i * 124)
                                   (take 124 (drop (i * 124) (replicate 125 0x11))))
                          [0..<(length (replicate 125 (0x11 :: u8)) + 123) div 124]"
    using m by (simp add: u d)
  have ok: "\<forall>i < length ?sent. \<exists>resp.
         transmit env_f4 (apdu_log card0 @ take i ?sent) (?sent ! i) = Inr (0x90, 0x00, resp)"
    by (simp add: env_f4_def wkey_chunk_apdu_def nth_Cons split: nat.splits)
  have t: "transmit env_f4 (apdu_log card0)
         (wkey_chunk_apdu card0 wkey125 0 (replicate 124 0x11)) = Inr (0x90, 0x00, [])"
    "transmit env_f4 (apdu_log card0 @ [wkey_chunk_apdu card0 wkey125 0 (replicate 124 0x11)])
         (wkey_chunk_apdu card0 wkey125 124 [0x11]) = Inr (0x90, 0x00, [])"
    "transmit env_f4 [] (sc_format_apdu card0 SC_APDU_CASE_3_SHORT 0xA4 0x00 0x0C)
       = Inr (0x6D, 0x00, [])"
    by (simp_all add: env_f4_def wkey_chunk_apdu_def sc_format_apdu_def)
  have r: "starcos_write_key env_f4 card0 wkey125
             = (card0\<lparr>apdu_log := apdu_log card0 @ ?sent\<rparr>, Inr ())"
    using write_key_chunks [OF k sent ok, THEN conjunct1, folded sent] .
  from r k t show ?thesis
    by (simp add: card0_def)
qed


subsection \<open>Key generation\<close>











subsection \<open>Security environment\<close>

lemma hash_bits_clear:
  assumes "x AND SC_ALGORITHM_RSA_HASHES = 0
           \<or> x AND SC_ALGORITHM_RSA_HASHES = SC_ALGORITHM_RSA_HASH_MD5_SHA1"
  shows "x AND SC_ALGORITHM_RSA_HASH_SHA1 = 0"
    and "x AND SC_ALGORITHM_RSA_HASH_RIPEMD160 = 0"
    and "x AND SC_ALGORITHM_RSA_HASH_MD5 = 0"
proof -
  have a: "x AND SC_ALGORITHM_RSA_HASH_SHA1 = (x AND SC_ALGORITHM_RSA_HASHES) AND SC_ALGORITHM_RSA_HASH_SHA1"
    by (simp add: and.assoc SC_ALGORITHM_RSA_HASHES_def SC_ALGORITHM_RSA_HASH_SHA1_def)
  have b: "x AND SC_ALGORITHM_RSA_HASH_RIPEMD160 = (x AND SC_ALGORITHM_RSA_HASHES) AND SC_ALGORITHM_RSA_HASH_RIPEMD160"
    by (simp add: and.assoc SC_ALGORITHM_RSA_HASHES_def SC_ALGORITHM_RSA_HASH_RIPEMD160_def)
  have c: "x AND SC_ALGORITHM_RSA_HASH_MD5 = (x AND SC_ALGORITHM_RSA_HASHES) AND SC_ALGORITHM_RSA_HASH_MD5"
    by (simp add: and.assoc SC_ALGORITHM_RSA_HASHES_def SC_ALGORITHM_RSA_HASH_MD5_def)
  from assms show "x AND SC_ALGORITHM_RSA_HASH_SHA1 = 0"
    unfolding a by (auto simp: SC_ALGORITHM_RSA_HASH_NONE_def SC_ALGORITHM_RSA_HASH_MD5_SHA1_def SC_ALGORITHM_RSA_HASH_SHA1_def)
  from assms show "x AND SC_ALGORITHM_RSA_HASH_RIPEMD160 = 0"
    unfolding b by (auto simp: SC_ALGORITHM_RSA_HASH_NONE_def SC_ALGORITHM_RSA_HASH_MD5_SHA1_def SC_ALGORITHM_RSA_HASH_RIPEMD160_def)
  from assms show "x AND SC_ALGORITHM_RSA_HASH_MD5 = 0"
    unfolding c by (auto simp: SC_ALGORITHM_RSA_HASH_NONE_def SC_ALGORITHM_RSA_HASH_MD5_SHA1_def SC_ALGORITHM_RSA_HASH_MD5_def)
qed

lemma try_authenticate_log:
  assumes "algorithm_flags senv AND SC_ALGORITHM_RSA_PAD_PKCS1 \<noteq> 0"
  shows "apdu_log (fst (try_authenticate e crd senv pp SC_SEC_OPERATION_AUTHENTICATE))
           = apdu_log crd
             @ [(sc_format_apdu crd SC_APDU_CASE_3_SHORT 0x22 0x41 0xa4)
                  \<lparr>data := pp @ [0x80, 0x01, 0x01], le := 0\<rparr>]"
  using assms
  by (simp add: try_authenticate_def Let_def sc_transmit_apdu_def split: sum.splits)

lemma try_authenticate_accepted:
  assumes "algorithm_flags senv AND SC_ALGORITHM_RSA_PAD_PKCS1 \<noteq> 0"
    and "transmit e (apdu_log crd)
           ((sc_format_apdu crd SC_APDU_CASE_3_SHORT 0x22 0x41 0xa4)
              \<lparr>data := pp @ [0x80, 0x01, 0x01], le := 0\<rparr>) = Inr (0x90, 0x00, resp)"
  shows "try_authenticate e crd senv pp SC_SEC_OPERATION_AUTHENTICATE
         = (crd\<lparr>apdu_log := apdu_log crd
                    @ [(sc_format_apdu crd SC_APDU_CASE_3_SHORT 0x22 0x41 0xa4)
                         \<lparr>data := pp @ [0x80, 0x01, 0x01], le := 0\<rparr>],
                 drv_data := (drv_data crd)\<lparr>fix_digestInfo := algorithm_flags senv,
                                           sec_ops := SC_SEC_OPERATION_AUTHENTICATE\<rparr>\<rparr>,
            Inr ())"
  using assms by (simp add: try_authenticate_def Let_def sc_transmit_apdu_def)

lemma fmt_log [simp]:
  "sc_format_apdu (crd\<lparr>apdu_log := l\<rparr>) c i a b = sc_format_apdu crd c i a b"
  by (simp add: sc_format_apdu_def)

text \<open>
  C5, as amended. For every \<open>set_security_env\<close> call with operation SIGN, PKCS#1 padding,
  no explicit algorithm reference and hash NONE (no bit of \<open>SC_ALGORITHM_RSA_HASHES\<close> set)
  or MD5+SHA1: when the algorithm is named as RSA (\<open>ALG_PRESENT\<close> set,
  \<open>algorithm == RSA\<close>), the driver sends only the MSE of INTERNAL AUTHENTICATE
  (\<open>22 41 A4\<close>, body key reference and \<open>80 01 01\<close>), whatever the card answers; when it
  is not, the driver first sends the MSE of COMPUTE SIGNATURE (\<open>22 41 B6\<close>, body the key
  reference), succeeds with \<open>sec_ops == SIGN\<close> and \<open>fix_digestInfo == 0\<close> if the card
  answers 9000, and goes on to the MSE of INTERNAL AUTHENTICATE after any other status
  word. In both cases, if the card accepts the MSE of INTERNAL AUTHENTICATE, the call
  succeeds with \<open>sec_ops == AUTHENTICATE\<close> and \<open>fix_digestInfo\<close> set to the environment's
  algorithm flags.
\<close>

theorem set_security_env_sign_falls_back:
  assumes op: "operation senv = SC_SEC_OPERATION_SIGN"
    and pk: "algorithm_flags senv AND SC_ALGORITHM_RSA_PAD_PKCS1 \<noteq> 0"
    and noref: "flags senv AND SC_SEC_ENV_ALG_REF_PRESENT = 0"
    and hash: "algorithm_flags senv AND SC_ALGORITHM_RSA_HASHES = 0
               \<or> algorithm_flags senv AND SC_ALGORITHM_RSA_HASHES = SC_ALGORITHM_RSA_HASH_MD5_SHA1"
  shows "((flags senv AND SC_SEC_ENV_ALG_PRESENT \<noteq> 0 \<and> algorithm senv = SC_ALGORITHM_RSA)
    \<longrightarrow> apdu_log (fst (starcos_set_security_env e crd senv se_num))
          = apdu_log crd
            @ [((sc_format_apdu crd SC_APDU_CASE_3_SHORT 0x22 0x41 0xa4)
              \<lparr>data := copy_key_reference senv @ [0x80, 0x01, 0x01], le := 0\<rparr>)])
   \<and> ((flags senv AND SC_SEC_ENV_ALG_PRESENT \<noteq> 0 \<and> algorithm senv = SC_ALGORITHM_RSA)
      \<and> transmit e (apdu_log crd)
          ((sc_format_apdu crd SC_APDU_CASE_3_SHORT 0x22 0x41 0xa4)
              \<lparr>data := copy_key_reference senv @ [0x80, 0x01, 0x01], le := 0\<rparr>)
        = Inr (0x90, 0x00, resp)
    \<longrightarrow> starcos_set_security_env e crd senv se_num
         = (crd\<lparr>apdu_log := apdu_log crd
                    @ [((sc_format_apdu crd SC_APDU_CASE_3_SHORT 0x22 0x41 0xa4)
              \<lparr>data := copy_key_reference senv @ [0x80, 0x01, 0x01], le := 0\<rparr>)],
                 drv_data := (drv_data crd)\<lparr>fix_digestInfo := algorithm_flags senv,
                                           sec_ops := SC_SEC_OPERATION_AUTHENTICATE\<rparr>\<rparr>,
            Inr ()))
   \<and> (\<not> (flags senv AND SC_SEC_ENV_ALG_PRESENT \<noteq> 0 \<and> algorithm senv = SC_ALGORITHM_RSA)
    \<longrightarrow> (\<exists>rest. apdu_log (fst (starcos_set_security_env e crd senv se_num))
                 = apdu_log crd
                   @ ((sc_format_apdu crd SC_APDU_CASE_3_SHORT 0x22 0x41 0xb6)
              \<lparr>data := copy_key_reference senv, le := 0\<rparr>) # rest))
   \<and> (\<not> (flags senv AND SC_SEC_ENV_ALG_PRESENT \<noteq> 0 \<and> algorithm senv = SC_ALGORITHM_RSA)
      \<and> transmit e (apdu_log crd)
          ((sc_format_apdu crd SC_APDU_CASE_3_SHORT 0x22 0x41 0xb6)
              \<lparr>data := copy_key_reference senv, le := 0\<rparr>)
        = Inr (0x90, 0x00, resp0)
    \<longrightarrow> starcos_set_security_env e crd senv se_num
         = (crd\<lparr>apdu_log := apdu_log crd
                    @ [((sc_format_apdu crd SC_APDU_CASE_3_SHORT 0x22 0x41 0xb6)
              \<lparr>data := copy_key_reference senv, le := 0\<rparr>)],
                 drv_data := (drv_data crd)\<lparr>fix_digestInfo := 0,
                                           sec_ops := SC_SEC_OPERATION_SIGN\<rparr>\<rparr>,
            Inr ()))
   \<and> (\<not> (flags senv AND SC_SEC_ENV_ALG_PRESENT \<noteq> 0 \<and> algorithm senv = SC_ALGORITHM_RSA)
      \<and> transmit e (apdu_log crd)
          ((sc_format_apdu crd SC_APDU_CASE_3_SHORT 0x22 0x41 0xb6)
              \<lparr>data := copy_key_reference senv, le := 0\<rparr>)
        = Inr (sw1, sw2, resp0)
      \<and> (sw1 \<noteq> 0x90 \<or> sw2 \<noteq> 0x00)
      \<and> transmit e
          (apdu_log crd
             @ [((sc_format_apdu crd SC_APDU_CASE_3_SHORT 0x22 0x41 0xb6)
              \<lparr>data := copy_key_reference senv, le := 0\<rparr>)])
          ((sc_format_apdu crd SC_APDU_CASE_3_SHORT 0x22 0x41 0xa4)
              \<lparr>data := copy_key_reference senv @ [0x80, 0x01, 0x01], le := 0\<rparr>)
        = Inr (0x90, 0x00, resp)
    \<longrightarrow> starcos_set_security_env e crd senv se_num
         = (crd\<lparr>apdu_log := apdu_log crd
                    @ [((sc_format_apdu crd SC_APDU_CASE_3_SHORT 0x22 0x41 0xb6)
              \<lparr>data := copy_key_reference senv, le := 0\<rparr>),
                       ((sc_format_apdu crd SC_APDU_CASE_3_SHORT 0x22 0x41 0xa4)
              \<lparr>data := copy_key_reference senv @ [0x80, 0x01, 0x01], le := 0\<rparr>)],
                 drv_data := (drv_data crd)\<lparr>fix_digestInfo := algorithm_flags senv,
                                           sec_ops := SC_SEC_OPERATION_AUTHENTICATE\<rparr>\<rparr>,
            Inr ()))"
proof -
  let ?pp = "copy_key_reference senv"
  have named: "flags senv AND SC_SEC_ENV_ALG_PRESENT \<noteq> 0 \<and> algorithm senv = SC_ALGORITHM_RSA
      \<Longrightarrow> starcos_set_security_env e crd senv se_num
            = try_authenticate e crd senv ?pp SC_SEC_OPERATION_AUTHENTICATE"
  proof -
    assume a: "flags senv AND SC_SEC_ENV_ALG_PRESENT \<noteq> 0 \<and> algorithm senv = SC_ALGORITHM_RSA"
    have sa: "sign_algorithm senv = ALG_TRY_AUTHENTICATE"
      using pk noref a hash_bits_clear[OF hash] by (simp add: sign_algorithm_def)
    show ?thesis
      using op pk sa
      by (simp add: starcos_set_security_env_def Let_def SC_SEC_OPERATION_SIGN_def
                    SC_SEC_OPERATION_DECIPHER_def)
  qed
  have unnamed: "\<not> (flags senv AND SC_SEC_ENV_ALG_PRESENT \<noteq> 0 \<and> algorithm senv = SC_ALGORITHM_RSA)
      \<Longrightarrow> starcos_set_security_env e crd senv se_num
            = (case transmit e (apdu_log crd)
                      ((sc_format_apdu crd SC_APDU_CASE_3_SHORT 0x22 0x41 0xb6)
                         \<lparr>data := ?pp, le := 0\<rparr>) of
                 Inl r \<Rightarrow>
                   (crd\<lparr>apdu_log := apdu_log crd
                           @ [(sc_format_apdu crd SC_APDU_CASE_3_SHORT 0x22 0x41 0xb6)
                                \<lparr>data := ?pp, le := 0\<rparr>]\<rparr>, Inl r)
               | Inr (sw1, sw2, resp) \<Rightarrow>
                   if sw1 = 0x90 \<and> sw2 = 0x00
                   then (crd\<lparr>apdu_log := apdu_log crd
                           @ [(sc_format_apdu crd SC_APDU_CASE_3_SHORT 0x22 0x41 0xb6)
                                \<lparr>data := ?pp, le := 0\<rparr>],
                              drv_data := (drv_data crd)\<lparr>fix_digestInfo := 0,
                                           sec_ops := SC_SEC_OPERATION_SIGN\<rparr>\<rparr>, Inr ())
                   else try_authenticate e
                          (crd\<lparr>apdu_log := apdu_log crd
                           @ [(sc_format_apdu crd SC_APDU_CASE_3_SHORT 0x22 0x41 0xb6)
                                \<lparr>data := ?pp, le := 0\<rparr>]\<rparr>)
                          senv ?pp SC_SEC_OPERATION_AUTHENTICATE)"
  proof -
    assume a: "\<not> (flags senv AND SC_SEC_ENV_ALG_PRESENT \<noteq> 0 \<and> algorithm senv = SC_ALGORITHM_RSA)"
    have sa: "sign_algorithm senv = ALG_BYTES []"
      using noref a by (auto simp add: sign_algorithm_def)
    show ?thesis
      using op pk sa
      by (simp add: starcos_set_security_env_def Let_def SC_SEC_OPERATION_SIGN_def
                    SC_SEC_OPERATION_DECIPHER_def sc_transmit_apdu_def
               split: sum.splits prod.splits)
  qed
  show ?thesis
  proof (intro conjI impI)
    assume a: "flags senv AND SC_SEC_ENV_ALG_PRESENT \<noteq> 0 \<and> algorithm senv = SC_ALGORITHM_RSA"
    show "apdu_log (fst (starcos_set_security_env e crd senv se_num))
          = apdu_log crd
            @ [((sc_format_apdu crd SC_APDU_CASE_3_SHORT 0x22 0x41 0xa4)
              \<lparr>data := copy_key_reference senv @ [0x80, 0x01, 0x01], le := 0\<rparr>)]"
      unfolding named[OF a] by (rule try_authenticate_log[OF pk])
  next
    assume a: "(flags senv AND SC_SEC_ENV_ALG_PRESENT \<noteq> 0 \<and> algorithm senv = SC_ALGORITHM_RSA)
      \<and> transmit e (apdu_log crd)
          ((sc_format_apdu crd SC_APDU_CASE_3_SHORT 0x22 0x41 0xa4)
              \<lparr>data := copy_key_reference senv @ [0x80, 0x01, 0x01], le := 0\<rparr>)
        = Inr (0x90, 0x00, resp)"
    show "starcos_set_security_env e crd senv se_num
         = (crd\<lparr>apdu_log := apdu_log crd
                    @ [((sc_format_apdu crd SC_APDU_CASE_3_SHORT 0x22 0x41 0xa4)
              \<lparr>data := copy_key_reference senv @ [0x80, 0x01, 0x01], le := 0\<rparr>)],
                 drv_data := (drv_data crd)\<lparr>fix_digestInfo := algorithm_flags senv,
                                           sec_ops := SC_SEC_OPERATION_AUTHENTICATE\<rparr>\<rparr>,
            Inr ())"
      unfolding named[OF a[THEN conjunct1]]
      by (rule try_authenticate_accepted[OF pk a[THEN conjunct2]])
  next
    assume a: "\<not> (flags senv AND SC_SEC_ENV_ALG_PRESENT \<noteq> 0 \<and> algorithm senv = SC_ALGORITHM_RSA)"
    show "\<exists>rest. apdu_log (fst (starcos_set_security_env e crd senv se_num))
                 = apdu_log crd
                   @ ((sc_format_apdu crd SC_APDU_CASE_3_SHORT 0x22 0x41 0xb6)
              \<lparr>data := copy_key_reference senv, le := 0\<rparr>) # rest"
      unfolding unnamed[OF a]
      by (auto simp: try_authenticate_log[OF pk] split: sum.splits)
  next
    assume a: "\<not> (flags senv AND SC_SEC_ENV_ALG_PRESENT \<noteq> 0 \<and> algorithm senv = SC_ALGORITHM_RSA)
      \<and> transmit e (apdu_log crd)
          ((sc_format_apdu crd SC_APDU_CASE_3_SHORT 0x22 0x41 0xb6)
              \<lparr>data := copy_key_reference senv, le := 0\<rparr>)
        = Inr (0x90, 0x00, resp0)"
    show "starcos_set_security_env e crd senv se_num
         = (crd\<lparr>apdu_log := apdu_log crd
                    @ [((sc_format_apdu crd SC_APDU_CASE_3_SHORT 0x22 0x41 0xb6)
              \<lparr>data := copy_key_reference senv, le := 0\<rparr>)],
                 drv_data := (drv_data crd)\<lparr>fix_digestInfo := 0,
                                           sec_ops := SC_SEC_OPERATION_SIGN\<rparr>\<rparr>,
            Inr ())"
      unfolding unnamed[OF a[THEN conjunct1]] using a by simp
  next
    assume a: "\<not> (flags senv AND SC_SEC_ENV_ALG_PRESENT \<noteq> 0 \<and> algorithm senv = SC_ALGORITHM_RSA)
      \<and> transmit e (apdu_log crd)
          ((sc_format_apdu crd SC_APDU_CASE_3_SHORT 0x22 0x41 0xb6)
              \<lparr>data := copy_key_reference senv, le := 0\<rparr>)
        = Inr (sw1, sw2, resp0)
      \<and> (sw1 \<noteq> 0x90 \<or> sw2 \<noteq> 0x00)
      \<and> transmit e
          (apdu_log crd
             @ [((sc_format_apdu crd SC_APDU_CASE_3_SHORT 0x22 0x41 0xb6)
              \<lparr>data := copy_key_reference senv, le := 0\<rparr>)])
          ((sc_format_apdu crd SC_APDU_CASE_3_SHORT 0x22 0x41 0xa4)
              \<lparr>data := copy_key_reference senv @ [0x80, 0x01, 0x01], le := 0\<rparr>)
        = Inr (0x90, 0x00, resp)"
    let ?c1 = "crd\<lparr>apdu_log := apdu_log crd
                    @ [((sc_format_apdu crd SC_APDU_CASE_3_SHORT 0x22 0x41 0xb6)
              \<lparr>data := copy_key_reference senv, le := 0\<rparr>)]\<rparr>"
    have t: "transmit e (apdu_log ?c1)
           ((sc_format_apdu ?c1 SC_APDU_CASE_3_SHORT 0x22 0x41 0xa4)
              \<lparr>data := ?pp @ [0x80, 0x01, 0x01], le := 0\<rparr>) = Inr (0x90, 0x00, resp)"
      using a by simp
    show "starcos_set_security_env e crd senv se_num
         = (crd\<lparr>apdu_log := apdu_log crd
                    @ [((sc_format_apdu crd SC_APDU_CASE_3_SHORT 0x22 0x41 0xb6)
              \<lparr>data := copy_key_reference senv, le := 0\<rparr>),
                       ((sc_format_apdu crd SC_APDU_CASE_3_SHORT 0x22 0x41 0xa4)
              \<lparr>data := copy_key_reference senv @ [0x80, 0x01, 0x01], le := 0\<rparr>)],
                 drv_data := (drv_data crd)\<lparr>fix_digestInfo := algorithm_flags senv,
                                           sec_ops := SC_SEC_OPERATION_AUTHENTICATE\<rparr>\<rparr>,
            Inr ())"
      unfolding unnamed[OF a[THEN conjunct1]]
      using a try_authenticate_accepted[OF pk t] by auto
  qed
qed



text \<open>
  C5 as stated does not hold: without the \<open>ALG_PRESENT\<close> flag the SIGN branch appends no
  algorithm byte and sends the MSE of COMPUTE SIGNATURE (\<open>22 41 B6\<close>); a card that accepts
  it leaves \<open>sec_ops == SIGN\<close>.
\<close>

theorem set_security_env_sign_counterexample:
  "operation senv_sign_noalg = SC_SEC_OPERATION_SIGN
   \<and> algorithm_flags senv_sign_noalg AND SC_ALGORITHM_RSA_PAD_PKCS1 \<noteq> 0
   \<and> flags senv_sign_noalg AND SC_SEC_ENV_ALG_REF_PRESENT = 0
   \<and> algorithm_flags senv_sign_noalg AND SC_ALGORITHM_RSA_HASH_NONE \<noteq> 0
   \<and> algorithm_flags senv_sign_noalg AND SC_ALGORITHM_RSA_HASHES = 0
   \<and> snd (starcos_set_security_env (env_sw 0x90 0x00 []) card0 senv_sign_noalg 0) = Inr ()
   \<and> sec_ops (drv_data (fst (starcos_set_security_env (env_sw 0x90 0x00 []) card0
                                senv_sign_noalg 0)))
       = SC_SEC_OPERATION_SIGN
   \<and> SC_SEC_OPERATION_SIGN \<noteq> SC_SEC_OPERATION_AUTHENTICATE"
  by (simp add: senv_sign_noalg_def senv_sign_none_def starcos_set_security_env_def Let_def
        sign_algorithm_def copy_key_reference_def sc_transmit_apdu_def env_sw_def card0_def
        sc_format_apdu_def
        SC_SEC_OPERATION_SIGN_def SC_SEC_OPERATION_DECIPHER_def SC_SEC_OPERATION_AUTHENTICATE_def
        SC_SEC_ENV_KEY_REF_PRESENT_def SC_SEC_ENV_ALG_PRESENT_def SC_SEC_ENV_ALG_REF_PRESENT_def
        SC_ALGORITHM_RSA_PAD_PKCS1_def SC_ALGORITHM_RSA_HASH_NONE_def SC_ALGORITHM_RSA_HASHES_def
        SC_ALGORITHM_RSA_PAD_ISO9796_def SC_SEC_ENV_KEY_REF_ASYMMETRIC_def SC_ALGORITHM_RSA_def)

theorem set_security_env_sign_falls_back_witness:
  "operation senv_sign_none = SC_SEC_OPERATION_SIGN
   \<and> algorithm_flags senv_sign_none AND SC_ALGORITHM_RSA_PAD_PKCS1 \<noteq> 0
   \<and> flags senv_sign_none AND SC_SEC_ENV_ALG_REF_PRESENT = 0
   \<and> flags senv_sign_none AND SC_SEC_ENV_ALG_PRESENT \<noteq> 0
   \<and> algorithm senv_sign_none = SC_ALGORITHM_RSA
   \<and> algorithm_flags senv_sign_none AND SC_ALGORITHM_RSA_HASHES = 0
   \<and> snd (starcos_set_security_env (env_sw 0x90 0x00 []) card0 senv_sign_none 0) = Inr ()
   \<and> drv_data (fst (starcos_set_security_env (env_sw 0x90 0x00 []) card0 senv_sign_none 0))
       = \<lparr>sec_ops = SC_SEC_OPERATION_AUTHENTICATE,
          fix_digestInfo = algorithm_flags senv_sign_none\<rparr>
   \<and> map data (apdu_log (fst (starcos_set_security_env (env_sw 0x90 0x00 []) card0
                                   senv_sign_none 0)))
       = [[0x84, 0x01, 0x02, 0x80, 0x01, 0x01]]
   \<and> operation senv_sign_noalg = SC_SEC_OPERATION_SIGN
   \<and> algorithm_flags senv_sign_noalg AND SC_ALGORITHM_RSA_PAD_PKCS1 \<noteq> 0
   \<and> flags senv_sign_noalg AND SC_SEC_ENV_ALG_REF_PRESENT = 0
   \<and> flags senv_sign_noalg AND SC_SEC_ENV_ALG_PRESENT = 0
   \<and> algorithm_flags senv_sign_noalg AND SC_ALGORITHM_RSA_HASHES = 0
   \<and> transmit env_no_sign (apdu_log card0)
        ((sc_format_apdu card0 SC_APDU_CASE_3_SHORT 0x22 0x41 0xb6)
           \<lparr>data := copy_key_reference senv_sign_noalg, le := 0\<rparr>) = Inr (0x6A, 0x80, [])
   \<and> snd (starcos_set_security_env env_no_sign card0 senv_sign_noalg 0) = Inr ()
   \<and> drv_data (fst (starcos_set_security_env env_no_sign card0 senv_sign_noalg 0))
       = \<lparr>sec_ops = SC_SEC_OPERATION_AUTHENTICATE,
          fix_digestInfo = algorithm_flags senv_sign_noalg\<rparr>
   \<and> map data (apdu_log (fst (starcos_set_security_env env_no_sign card0 senv_sign_noalg 0)))
       = [[0x84, 0x01, 0x02], [0x84, 0x01, 0x02, 0x80, 0x01, 0x01]]"
proof -
  have op: "operation senv_sign_none = SC_SEC_OPERATION_SIGN"
    by (simp add: senv_sign_none_def)
  have pk: "algorithm_flags senv_sign_none AND SC_ALGORITHM_RSA_PAD_PKCS1 \<noteq> 0"
    by (simp add: senv_sign_none_def SC_ALGORITHM_RSA_PAD_PKCS1_def
                  SC_ALGORITHM_RSA_HASH_NONE_def)
  have noref: "flags senv_sign_none AND SC_SEC_ENV_ALG_REF_PRESENT = 0"
    by (simp add: senv_sign_none_def SC_SEC_ENV_ALG_REF_PRESENT_def
                  SC_SEC_ENV_KEY_REF_PRESENT_def SC_SEC_ENV_ALG_PRESENT_def)
  have alg: "flags senv_sign_none AND SC_SEC_ENV_ALG_PRESENT \<noteq> 0"
            "algorithm senv_sign_none = SC_ALGORITHM_RSA"
    by (simp_all add: senv_sign_none_def SC_SEC_ENV_KEY_REF_PRESENT_def
                      SC_SEC_ENV_ALG_PRESENT_def)
  have h0: "algorithm_flags senv_sign_none AND SC_ALGORITHM_RSA_HASHES = 0"
    by (simp add: senv_sign_none_def SC_ALGORITHM_RSA_PAD_PKCS1_def
                  SC_ALGORITHM_RSA_HASH_NONE_def SC_ALGORITHM_RSA_HASHES_def)
  then have hash: "algorithm_flags senv_sign_none AND SC_ALGORITHM_RSA_HASHES = 0
      \<or> algorithm_flags senv_sign_none AND SC_ALGORITHM_RSA_HASHES
          = SC_ALGORITHM_RSA_HASH_MD5_SHA1"
    by simp
  have acc: "transmit (env_sw 0x90 0x00 []) (apdu_log card0)
                ((sc_format_apdu card0 SC_APDU_CASE_3_SHORT 0x22 0x41 0xa4)
                   \<lparr>data := copy_key_reference senv_sign_none @ [0x80, 0x01, 0x01], le := 0\<rparr>)
              = Inr (0x90, 0x00, [])"
    by (simp add: env_sw_def)
  have kr: "copy_key_reference senv_sign_none = [0x84, 0x01, 0x02]"
    by (simp add: copy_key_reference_def senv_sign_none_def SC_SEC_ENV_KEY_REF_PRESENT_def
                  SC_SEC_ENV_ALG_PRESENT_def SC_SEC_ENV_KEY_REF_ASYMMETRIC_def)
  have r1: "starcos_set_security_env (env_sw 0x90 0x00 []) card0 senv_sign_none 0
         = (card0\<lparr>apdu_log := apdu_log card0
                    @ [(sc_format_apdu card0 SC_APDU_CASE_3_SHORT 0x22 0x41 0xa4)
                         \<lparr>data := copy_key_reference senv_sign_none @ [0x80, 0x01, 0x01],
                          le := 0\<rparr>],
                 drv_data := (drv_data card0)\<lparr>fix_digestInfo := algorithm_flags senv_sign_none,
                                           sec_ops := SC_SEC_OPERATION_AUTHENTICATE\<rparr>\<rparr>,
            Inr ())"
    using set_security_env_sign_falls_back
            [where e = "env_sw 0x90 0x00 []" and crd = card0 and se_num = 0 and resp = "[]",
             OF op pk noref hash, THEN conjunct2, THEN conjunct1]
          alg acc
    by blast
  have op': "operation senv_sign_noalg = SC_SEC_OPERATION_SIGN"
    by (simp add: senv_sign_noalg_def senv_sign_none_def)
  have pk': "algorithm_flags senv_sign_noalg AND SC_ALGORITHM_RSA_PAD_PKCS1 \<noteq> 0"
    using pk by (simp add: senv_sign_noalg_def)
  have noref': "flags senv_sign_noalg AND SC_SEC_ENV_ALG_REF_PRESENT = 0"
    by (simp add: senv_sign_noalg_def SC_SEC_ENV_ALG_REF_PRESENT_def
                  SC_SEC_ENV_KEY_REF_PRESENT_def)
  have noalg: "flags senv_sign_noalg AND SC_SEC_ENV_ALG_PRESENT = 0"
    by (simp add: senv_sign_noalg_def SC_SEC_ENV_ALG_PRESENT_def
                  SC_SEC_ENV_KEY_REF_PRESENT_def)
  have h0': "algorithm_flags senv_sign_noalg AND SC_ALGORITHM_RSA_HASHES = 0"
    using h0 by (simp add: senv_sign_noalg_def)
  then have hash': "algorithm_flags senv_sign_noalg AND SC_ALGORITHM_RSA_HASHES = 0
      \<or> algorithm_flags senv_sign_noalg AND SC_ALGORITHM_RSA_HASHES
          = SC_ALGORITHM_RSA_HASH_MD5_SHA1"
    by simp
  have kr': "copy_key_reference senv_sign_noalg = [0x84, 0x01, 0x02]"
    by (simp add: copy_key_reference_def senv_sign_noalg_def senv_sign_none_def
                  SC_SEC_ENV_KEY_REF_PRESENT_def SC_SEC_ENV_KEY_REF_ASYMMETRIC_def)
  have b6: "transmit env_no_sign (apdu_log card0)
        ((sc_format_apdu card0 SC_APDU_CASE_3_SHORT 0x22 0x41 0xb6)
           \<lparr>data := copy_key_reference senv_sign_noalg, le := 0\<rparr>) = Inr (0x6A, 0x80, [])"
    by (simp add: env_no_sign_def sc_format_apdu_def)
  have a4: "transmit env_no_sign
          (apdu_log card0
             @ [(sc_format_apdu card0 SC_APDU_CASE_3_SHORT 0x22 0x41 0xb6)
                  \<lparr>data := copy_key_reference senv_sign_noalg, le := 0\<rparr>])
          ((sc_format_apdu card0 SC_APDU_CASE_3_SHORT 0x22 0x41 0xa4)
              \<lparr>data := copy_key_reference senv_sign_noalg @ [0x80, 0x01, 0x01], le := 0\<rparr>)
        = Inr (0x90, 0x00, [])"
    by (simp add: env_no_sign_def sc_format_apdu_def)
  have ne: "(0x6A :: u8) \<noteq> 0x90 \<or> (0x80 :: u8) \<noteq> 0x00" by simp
  have r2: "starcos_set_security_env env_no_sign card0 senv_sign_noalg 0
         = (card0\<lparr>apdu_log := apdu_log card0
                    @ [(sc_format_apdu card0 SC_APDU_CASE_3_SHORT 0x22 0x41 0xb6)
                         \<lparr>data := copy_key_reference senv_sign_noalg, le := 0\<rparr>,
                       (sc_format_apdu card0 SC_APDU_CASE_3_SHORT 0x22 0x41 0xa4)
                         \<lparr>data := copy_key_reference senv_sign_noalg @ [0x80, 0x01, 0x01],
                          le := 0\<rparr>],
                 drv_data := (drv_data card0)\<lparr>fix_digestInfo := algorithm_flags senv_sign_noalg,
                                           sec_ops := SC_SEC_OPERATION_AUTHENTICATE\<rparr>\<rparr>,
            Inr ())"
    using set_security_env_sign_falls_back
            [where e = env_no_sign and crd = card0 and se_num = 0 and resp = "[]"
               and ?sw1.0 = "0x6A" and ?sw2.0 = "0x80" and ?resp0.0 = "[]",
             OF op' pk' noref' hash',
             THEN conjunct2, THEN conjunct2, THEN conjunct2, THEN conjunct2]
          noalg b6 a4 ne
    by blast
  have d0: "drv_data card0 = \<lparr>sec_ops = 0, fix_digestInfo = 0\<rparr>" "apdu_log card0 = []"
    by (simp_all add: card0_def)
  from op pk noref alg h0 op' pk' noref' noalg h0' b6 show ?thesis
    unfolding r1 r2 by (simp add: kr kr' d0)
qed


subsection \<open>Signing\<close>

text \<open>
  C1, as amended. When \<open>compute_signature\<close> returns because the last command of its
  dispatch (PSO COMPUTE SIGNATURE on the SIGN path, INTERNAL AUTHENTICATE on the
  AUTHENTICATE path) was answered with a status word other than 9000, the extension state
  has \<open>sec_ops == 0\<close> and \<open>fix_digestInfo == 0\<close> and the return value is the translation of
  that status word; a call rejected because no security operation is installed
  (\<open>sec_ops\<close> is neither SIGN nor AUTHENTICATE) returns \<open>INVALID_ARGUMENTS\<close> and leaves the
  card handle as it was, so a zero extension state stays zero.
\<close>

theorem compute_signature_clears_after_failed_command:
  "(sec_ops (drv_data crd) = SC_SEC_OPERATION_SIGN
      \<and> length dat \<le> SC_MAX_APDU_BUFFER_SIZE
      \<and> transmit e (apdu_log crd)
            ((sc_format_apdu crd SC_APDU_CASE_3_SHORT 0x2A 0x90 0x81)
               \<lparr>resplen := SC_MAX_APDU_BUFFER_SIZE, le := 0, data := dat\<rparr>)
          = Inr (0x90, 0x00, resp0)
      \<and> transmit e
            (apdu_log crd @ [(sc_format_apdu crd SC_APDU_CASE_3_SHORT 0x2A 0x90 0x81)
               \<lparr>resplen := SC_MAX_APDU_BUFFER_SIZE, le := 0, data := dat\<rparr>])
            ((sc_format_apdu crd SC_APDU_CASE_2_SHORT 0x2A 0x9E 0x9A)
               \<lparr>resplen := SC_MAX_APDU_BUFFER_SIZE, le := 256, sensitive := True\<rparr>)
          = Inr (sw1, sw2, resp)
      \<and> \<not> (sw1 = 0x90 \<and> sw2 = 0x00)
    \<longrightarrow> drv_data (fst (starcos_compute_signature e crd dat outlen))
          = (drv_data crd)\<lparr>sec_ops := 0, fix_digestInfo := 0\<rparr>
        \<and> snd (starcos_compute_signature e crd dat outlen)
          = ((case sc_check_sw e sw1 sw2 of Inl r \<Rightarrow> Inl r | Inr u \<Rightarrow> Inr 0), None))
   \<and> (sec_ops (drv_data crd) = SC_SEC_OPERATION_AUTHENTICATE
      \<and> length dat \<le> SC_MAX_APDU_BUFFER_SIZE
      \<and> fix_digest_info e (drv_data crd) dat = Inr sbuf
      \<and> transmit e (apdu_log crd)
            ((sc_format_apdu crd SC_APDU_CASE_4_SHORT 0x88 0x10 0x00)
               \<lparr>data := sbuf, resplen := SC_MAX_APDU_BUFFER_SIZE, le := 256\<rparr>)
          = Inr (sw1, sw2, resp)
      \<and> \<not> (sw1 = 0x90 \<and> sw2 = 0x00)
    \<longrightarrow> drv_data (fst (starcos_compute_signature e crd dat outlen))
          = (drv_data crd)\<lparr>sec_ops := 0, fix_digestInfo := 0\<rparr>
        \<and> snd (starcos_compute_signature e crd dat outlen)
          = ((case sc_check_sw e sw1 sw2 of Inl r \<Rightarrow> Inl r | Inr u \<Rightarrow> Inr 0), None))
   \<and> (sec_ops (drv_data crd) \<noteq> SC_SEC_OPERATION_SIGN
      \<and> sec_ops (drv_data crd) \<noteq> SC_SEC_OPERATION_AUTHENTICATE
    \<longrightarrow> starcos_compute_signature e crd dat outlen
          = (crd, Inl SC_ERROR_INVALID_ARGUMENTS, None))"
proof (intro conjI impI)
  assume h: "sec_ops (drv_data crd) = SC_SEC_OPERATION_SIGN
      \<and> length dat \<le> SC_MAX_APDU_BUFFER_SIZE
      \<and> transmit e (apdu_log crd)
            ((sc_format_apdu crd SC_APDU_CASE_3_SHORT 0x2A 0x90 0x81)
               \<lparr>resplen := SC_MAX_APDU_BUFFER_SIZE, le := 0, data := dat\<rparr>)
          = Inr (0x90, 0x00, resp0)
      \<and> transmit e
            (apdu_log crd @ [(sc_format_apdu crd SC_APDU_CASE_3_SHORT 0x2A 0x90 0x81)
               \<lparr>resplen := SC_MAX_APDU_BUFFER_SIZE, le := 0, data := dat\<rparr>])
            ((sc_format_apdu crd SC_APDU_CASE_2_SHORT 0x2A 0x9E 0x9A)
               \<lparr>resplen := SC_MAX_APDU_BUFFER_SIZE, le := 256, sensitive := True\<rparr>)
          = Inr (sw1, sw2, resp)
      \<and> \<not> (sw1 = 0x90 \<and> sw2 = 0x00)"
  then have run: "starcos_compute_signature e crd dat outlen
     = clear_old_state e
         (crd\<lparr>apdu_log := apdu_log crd
             @ [(sc_format_apdu crd SC_APDU_CASE_3_SHORT 0x2A 0x90 0x81)
                  \<lparr>resplen := SC_MAX_APDU_BUFFER_SIZE, le := 0, data := dat\<rparr>,
                (sc_format_apdu crd SC_APDU_CASE_2_SHORT 0x2A 0x9E 0x9A)
                  \<lparr>resplen := SC_MAX_APDU_BUFFER_SIZE, le := 256, sensitive := True\<rparr>]\<rparr>)
         sw1 sw2"
    by (auto simp add: starcos_compute_signature_def Let_def sc_transmit_apdu_def)
  show "drv_data (fst (starcos_compute_signature e crd dat outlen))
          = (drv_data crd)\<lparr>sec_ops := 0, fix_digestInfo := 0\<rparr>"
    unfolding run by (simp add: clear_old_state_def)
  show "snd (starcos_compute_signature e crd dat outlen)
          = ((case sc_check_sw e sw1 sw2 of Inl r \<Rightarrow> Inl r | Inr u \<Rightarrow> Inr 0), None)"
    unfolding run by (simp add: clear_old_state_def)
next
  assume h: "sec_ops (drv_data crd) = SC_SEC_OPERATION_AUTHENTICATE
      \<and> length dat \<le> SC_MAX_APDU_BUFFER_SIZE
      \<and> fix_digest_info e (drv_data crd) dat = Inr sbuf
      \<and> transmit e (apdu_log crd)
            ((sc_format_apdu crd SC_APDU_CASE_4_SHORT 0x88 0x10 0x00)
               \<lparr>data := sbuf, resplen := SC_MAX_APDU_BUFFER_SIZE, le := 256\<rparr>)
          = Inr (sw1, sw2, resp)
      \<and> \<not> (sw1 = 0x90 \<and> sw2 = 0x00)"
  then have run: "starcos_compute_signature e crd dat outlen
     = clear_old_state e
         (crd\<lparr>apdu_log := apdu_log crd
             @ [(sc_format_apdu crd SC_APDU_CASE_4_SHORT 0x88 0x10 0x00)
               \<lparr>data := sbuf, resplen := SC_MAX_APDU_BUFFER_SIZE, le := 256\<rparr>]\<rparr>)
         sw1 sw2"
    by (auto simp add: starcos_compute_signature_def Let_def sc_transmit_apdu_def
          SC_SEC_OPERATION_AUTHENTICATE_def SC_SEC_OPERATION_SIGN_def)
  show "drv_data (fst (starcos_compute_signature e crd dat outlen))
          = (drv_data crd)\<lparr>sec_ops := 0, fix_digestInfo := 0\<rparr>"
    unfolding run by (simp add: clear_old_state_def)
  show "snd (starcos_compute_signature e crd dat outlen)
          = ((case sc_check_sw e sw1 sw2 of Inl r \<Rightarrow> Inl r | Inr u \<Rightarrow> Inr 0), None)"
    unfolding run by (simp add: clear_old_state_def)
next
  assume "sec_ops (drv_data crd) \<noteq> SC_SEC_OPERATION_SIGN
      \<and> sec_ops (drv_data crd) \<noteq> SC_SEC_OPERATION_AUTHENTICATE"
  then show "starcos_compute_signature e crd dat outlen
          = (crd, Inl SC_ERROR_INVALID_ARGUMENTS, None)"
    by (simp add: starcos_compute_signature_def Let_def)
qed

text \<open>
  C1 as stated does not hold: a successful signature returns from inside the SIGN branch,
  before the state is cleared, and \<open>sec_ops\<close> is still SIGN afterwards.
\<close>

theorem compute_signature_success_counterexample:
  "starcos_compute_signature (env_sw 0x90 0x00 [0xAB, 0xCD]) card_sign [1, 2, 3] 128
     = (card_sign\<lparr>apdu_log :=
          [(sc_format_apdu card_sign SC_APDU_CASE_3_SHORT 0x2A 0x90 0x81)
             \<lparr>resplen := SC_MAX_APDU_BUFFER_SIZE, le := 0, data := [1, 2, 3]\<rparr>,
           (sc_format_apdu card_sign SC_APDU_CASE_2_SHORT 0x2A 0x9E 0x9A)
             \<lparr>resplen := SC_MAX_APDU_BUFFER_SIZE, le := 256, sensitive := True\<rparr>]\<rparr>,
        Inr 2, Some [0xAB, 0xCD])
   \<and> sec_ops (drv_data (fst (starcos_compute_signature (env_sw 0x90 0x00 [0xAB, 0xCD])
                                card_sign [1, 2, 3] 128))) = SC_SEC_OPERATION_SIGN
   \<and> sec_ops (drv_data (fst (starcos_compute_signature (env_sw 0x90 0x00 [0xAB, 0xCD])
                                card_sign [1, 2, 3] 128))) \<noteq> 0"
  by (simp add: starcos_compute_signature_def Let_def sc_transmit_apdu_def env_sw_def
        card_sign_def card0_def SC_MAX_APDU_BUFFER_SIZE_def SC_SEC_OPERATION_SIGN_def
        sc_format_apdu_def)


theorem compute_signature_clears_after_failed_command_witness:
  "sec_ops (drv_data card_sign) = SC_SEC_OPERATION_SIGN
   \<and> length [1, 2, 3 :: u8] \<le> SC_MAX_APDU_BUFFER_SIZE
   \<and> drv_data (fst (starcos_compute_signature env_sign_fails card_sign [1, 2, 3] 128))
       = \<lparr>sec_ops = 0, fix_digestInfo = 0\<rparr>
   \<and> snd (starcos_compute_signature env_sign_fails card_sign [1, 2, 3] 128)
       = (Inl SC_ERROR_CARD_CMD_FAILED, None)
   \<and> sec_ops (drv_data card0) \<noteq> SC_SEC_OPERATION_SIGN
   \<and> sec_ops (drv_data card0) \<noteq> SC_SEC_OPERATION_AUTHENTICATE
   \<and> starcos_compute_signature env_sign_fails card0 [1, 2, 3] 128
       = (card0, Inl SC_ERROR_INVALID_ARGUMENTS, None)"
proof -
  have a: "sec_ops (drv_data card_sign) = SC_SEC_OPERATION_SIGN
      \<and> length [1, 2, 3 :: u8] \<le> SC_MAX_APDU_BUFFER_SIZE
      \<and> transmit env_sign_fails (apdu_log card_sign)
            ((sc_format_apdu card_sign SC_APDU_CASE_3_SHORT 0x2A 0x90 0x81)
               \<lparr>resplen := SC_MAX_APDU_BUFFER_SIZE, le := 0, data := [1, 2, 3]\<rparr>)
          = Inr (0x90, 0x00, [])
      \<and> transmit env_sign_fails
            (apdu_log card_sign @ [(sc_format_apdu card_sign SC_APDU_CASE_3_SHORT 0x2A 0x90 0x81)
               \<lparr>resplen := SC_MAX_APDU_BUFFER_SIZE, le := 0, data := [1, 2, 3]\<rparr>])
            ((sc_format_apdu card_sign SC_APDU_CASE_2_SHORT 0x2A 0x9E 0x9A)
               \<lparr>resplen := SC_MAX_APDU_BUFFER_SIZE, le := 256, sensitive := True\<rparr>)
          = Inr (0x6F, 0x08, [])
      \<and> \<not> ((0x6F :: u8) = 0x90 \<and> (0x08 :: u8) = 0x00)"
    by (simp add: env_sign_fails_def card_sign_def card0_def SC_MAX_APDU_BUFFER_SIZE_def
                  sc_format_apdu_def)
  have b: "sec_ops (drv_data card0) \<noteq> SC_SEC_OPERATION_SIGN
      \<and> sec_ops (drv_data card0) \<noteq> SC_SEC_OPERATION_AUTHENTICATE"
    by (simp add: card0_def SC_SEC_OPERATION_SIGN_def SC_SEC_OPERATION_AUTHENTICATE_def)
  have c: "sc_check_sw env_sign_fails 0x6F 0x08 = Inl SC_ERROR_CARD_CMD_FAILED"
    by (simp add: sc_check_sw_def starcos_check_sw_def starcos_errors_def)
  have d: "drv_data card_sign\<lparr>sec_ops := 0, fix_digestInfo := 0\<rparr>
             = \<lparr>sec_ops = 0, fix_digestInfo = 0\<rparr>"
    by (simp add: card_sign_def card0_def)
  from compute_signature_clears_after_failed_command
         [of card_sign "[1, 2, 3]" env_sign_fails "[]" "0x6F" "0x08" "[]" 128 "[]"] a
  have 1: "drv_data (fst (starcos_compute_signature env_sign_fails card_sign [1, 2, 3] 128))
             = \<lparr>sec_ops = 0, fix_digestInfo = 0\<rparr>"
          "snd (starcos_compute_signature env_sign_fails card_sign [1, 2, 3] 128)
             = (Inl SC_ERROR_CARD_CMD_FAILED, None)"
    by (simp_all add: c d)
  from compute_signature_clears_after_failed_command
         [of card0 "[1, 2, 3]" env_sign_fails "[]" "0x6F" "0x08" "[]" 128 "[]"] b
  have 2: "starcos_compute_signature env_sign_fails card0 [1, 2, 3] 128
             = (card0, Inl SC_ERROR_INVALID_ARGUMENTS, None)"
    by blast
  from a b 1 2 show ?thesis by simp
qed

subsection \<open>The ACL translator\<close>

text \<open>The loop of the EF branch starts with \<open>tmp = 0\<close> and runs while \<open>tmp != 0\<close>: its
  body is never entered.\<close>

lemma ef_sm_loop_zero: "ef_sm_loop file 0 r = 0"
  by (subst ef_sm_loop.simps) simp

lemma process_acl_ef_sm_byte:
  assumes "ftype file = SC_FILE_TYPE_WORKING_EF"
    and "starcos_process_acl file = Inr (SC_STARCOS_EF_DATA h)"
  shows "length h = 16 \<and> h ! 11 = 0x00"
  using assms
  by (auto simp: starcos_process_acl_def Let_def ef_sm_loop_zero SC_FILE_TYPE_WORKING_EF_def
        SC_FILE_TYPE_DF_def split: if_splits)

lemma process_acl_mf_sm_bytes:
  assumes "ftype file = SC_FILE_TYPE_DF" "fid file = 0x3f00"
    and "acl_wants_pro file SC_AC_OP_CREATE"
  shows "\<exists>h. starcos_process_acl file = Inr (SC_STARCOS_MF_DATA h) \<and> length h = 19
             \<and> drop 16 h = [0x03, 0x03, 0x03]"
  using assms by (simp add: starcos_process_acl_def Let_def)

text \<open>
  C2. The claim is that the SM byte of an encoded working EF is \<open>0x03\<close> when some
  operation's ACL entry has method \<open>PRO\<close>. The code does not do that: for the EF
  \<open>ef_pro\<close>, whose READ entry has method \<open>PRO\<close>, the SM byte (byte 11 of the header) is
  \<open>0x00\<close>, while the MF branch does set its three SM bytes to \<open>0x03\<close> for \<open>mf_pro\<close>.
\<close>

theorem process_acl_ef_ignores_pro:
  "acl_wants_pro ef_pro SC_AC_OP_READ
   \<and> (\<exists>h. starcos_process_acl ef_pro = Inr (SC_STARCOS_EF_DATA h)
          \<and> length h = 16 \<and> h ! 11 = 0x00)
   \<and> acl_wants_pro mf_pro SC_AC_OP_CREATE
   \<and> (\<exists>h. starcos_process_acl mf_pro = Inr (SC_STARCOS_MF_DATA h)
          \<and> drop 16 h = [0x03, 0x03, 0x03])"
proof -
  have a: "acl_wants_pro ef_pro SC_AC_OP_READ"
    by (simp add: acl_wants_pro_def ef_pro_def sc_file_get_acl_entry_def SC_AC_PRO_def)
  have b: "ftype ef_pro = SC_FILE_TYPE_WORKING_EF" by (simp add: ef_pro_def)
  have "\<exists>h. starcos_process_acl ef_pro = Inr (SC_STARCOS_EF_DATA h)"
    by (simp add: starcos_process_acl_def Let_def ef_pro_def SC_FILE_TYPE_WORKING_EF_def
          SC_FILE_TYPE_DF_def SC_FILE_EF_TRANSPARENT_def)
  then obtain h where h: "starcos_process_acl ef_pro = Inr (SC_STARCOS_EF_DATA h)" by blast
  from process_acl_ef_sm_byte[OF b h] h
  have c: "\<exists>h. starcos_process_acl ef_pro = Inr (SC_STARCOS_EF_DATA h)
          \<and> length h = 16 \<and> h ! 11 = 0x00" by blast
  have d: "acl_wants_pro mf_pro SC_AC_OP_CREATE"
    by (simp add: acl_wants_pro_def mf_pro_def sc_file_get_acl_entry_def SC_AC_PRO_def)
  have "ftype mf_pro = SC_FILE_TYPE_DF" "fid mf_pro = 0x3f00" by (simp_all add: mf_pro_def)
  from process_acl_mf_sm_bytes[OF this d]
  have e: "\<exists>h. starcos_process_acl mf_pro = Inr (SC_STARCOS_MF_DATA h)
          \<and> drop 16 h = [0x03, 0x03, 0x03]" by blast
  from a c d e show ?thesis by blast
qed

subsection \<open>Status words\<close>


lemma from_last_frame [simp]:
  "from_last_exchange e (crd\<lparr>cache_valid := v\<rparr>) = from_last_exchange e crd"
  "from_last_exchange e (crd\<lparr>cache_current_path := cp\<rparr>) = from_last_exchange e crd"
  "from_last_exchange e (crd\<lparr>drv_data := dd\<rparr>) = from_last_exchange e crd"
  "from_last_exchange e (crd\<lparr>serialnr := sn\<rparr>) = from_last_exchange e crd"
  by (simp_all add: from_last_exchange_def last_reply_def fun_eq_iff)



































lemma last_reply_frame [simp]:
  "last_reply e (crd\<lparr>cache_valid := v\<rparr>) = last_reply e crd"
  "last_reply e (crd\<lparr>cache_current_path := cp\<rparr>) = last_reply e crd"
  "last_reply e (crd\<lparr>drv_data := dd\<rparr>) = last_reply e crd"
  "last_reply e (crd\<lparr>serialnr := sn\<rparr>) = last_reply e crd"
  by (simp_all add: last_reply_def)




















subsection \<open>Erase\<close>


text \<open>
  C7. For every \<open>erase_card\<close> call whose transport succeeds, \<open>cache_valid\<close> is false
  afterwards whatever the card's status word is, and the status word 6985 (no MF
  present) is returned to the caller as success.
\<close>

theorem erase_card_invalidates_cache:
  assumes "transmit e (apdu_log crd)
             ((sc_format_apdu crd SC_APDU_CASE_3_SHORT 0xE4 0x00 0x00)
                \<lparr>cla := card_cla crd OR 0x80, data := [0x3f, 0x00]\<rparr>) = Inr (sw1, sw2, resp)"
  shows "cache_valid (fst (starcos_erase_card e crd)) = False
       \<and> (sw1 = 0x69 \<and> sw2 = 0x85 \<longrightarrow> snd (starcos_erase_card e crd) = Inr ())"
  using assms by (simp add: starcos_erase_card_def sc_transmit_apdu_def Let_def)

theorem erase_card_invalidates_cache_witness:
  "transmit (env_sw 0x69 0x85 []) (apdu_log card0)
     ((sc_format_apdu card0 SC_APDU_CASE_3_SHORT 0xE4 0x00 0x00)
        \<lparr>cla := card_cla card0 OR 0x80, data := [0x3f, 0x00]\<rparr>) = Inr (0x69, 0x85, [])
   \<and> cache_valid (fst (starcos_erase_card (env_sw 0x69 0x85 []) card0)) = False
   \<and> snd (starcos_erase_card (env_sw 0x69 0x85 []) card0) = Inr ()"
proof -
  have h: "transmit (env_sw 0x69 0x85 []) (apdu_log card0)
     ((sc_format_apdu card0 SC_APDU_CASE_3_SHORT 0xE4 0x00 0x00)
        \<lparr>cla := card_cla card0 OR 0x80, data := [0x3f, 0x00]\<rparr>) = Inr (0x69, 0x85, [])"
    by (simp add: env_sw_def)
  from erase_card_invalidates_cache [OF h] h show ?thesis by simp
qed

end
